theory Spec2Isabelle
  imports Main "HOL-Library.Word" "HOL-Library.Char_ord" "HOL-Library.List_Lexorder"
    "HOL-Library.Sublist" "HOL-Library.Multiset"
begin

unbundle bit_operations_syntax

section \<open>Strings, bytes and digests\<close>

text \<open>
  In the logger a Python \<open>str\<close> is modelled as a \<open>string\<close>, the list of its code points;
  Isabelle's \<open>char\<close> has 256 values, so the logger's model covers the code points up to
  U+00FF. A Python \<open>bytes\<close> value is a list of 8-bit words. \<open>str.encode()\<close> is UTF-8: one
  byte for a code point below 128, two bytes for the others of this range. The build
  identifier below takes its strings with every code point.
\<close>

type_synonym byte = "8 word"
type_synonym bytes = "byte list"
type_synonym u32 = "32 word"

definition utf8_char :: "char \<Rightarrow> bytes" where
  "utf8_char c =
     (let n = (of_char c :: nat)
      in if n < 128 then [of_nat n]
         else [of_nat (192 + n div 64), of_nat (128 + n mod 64)])"

definition utf8_encode :: "string \<Rightarrow> bytes" where
  "utf8_encode s = concat (map utf8_char s)"

text \<open>\<open>hexdigest()\<close>: two lowercase hexadecimal digits for each byte of the digest.\<close>

definition hexdigits :: string where
  "hexdigits = ''0123456789abcdef''"

definition hex_byte :: "byte \<Rightarrow> string" where
  "hex_byte b = [hexdigits ! (unat b div 16), hexdigits ! (unat b mod 16)]"

definition hexlify :: "bytes \<Rightarrow> string" where
  "hexlify bs = concat (map hex_byte bs)"

text \<open>
  Both digests of \<open>hashlib\<close> that the program calls pad the message the same way: a byte
  0x80, zero bytes up to 56 modulo 64, then the length of the message in bits as a 64-bit
  number; and both work through the padded message in blocks of 64 bytes.
\<close>

definition pad_zeros :: "nat \<Rightarrow> nat" where
  "pad_zeros n = (119 - n mod 64) mod 64"

definition bit_length :: "bytes \<Rightarrow> 64 word" where
  "bit_length m = of_nat (8 * length m)"

definition le_bytes32 :: "u32 \<Rightarrow> bytes" where
  "le_bytes32 w = map (\<lambda>i. ucast (drop_bit (8 * i) w)) [0, 1, 2, 3]"

definition be_bytes32 :: "u32 \<Rightarrow> bytes" where
  "be_bytes32 w = map (\<lambda>i. ucast (drop_bit (8 * i) w)) [3, 2, 1, 0]"

definition le_bytes64 :: "64 word \<Rightarrow> bytes" where
  "le_bytes64 w = map (\<lambda>i. ucast (drop_bit (8 * i) w)) [0, 1, 2, 3, 4, 5, 6, 7]"

definition be_bytes64 :: "64 word \<Rightarrow> bytes" where
  "be_bytes64 w = map (\<lambda>i. ucast (drop_bit (8 * i) w)) [7, 6, 5, 4, 3, 2, 1, 0]"

fun le_word32 :: "bytes \<Rightarrow> u32" where
  "le_word32 [] = 0"
| "le_word32 (b # bs) = ucast b OR push_bit 8 (le_word32 bs)"

definition be_word32 :: "bytes \<Rightarrow> u32" where
  "be_word32 bs = le_word32 (rev bs)"

text \<open>The padded message cut into pieces of \<open>n\<close> bytes; \<open>k\<close> bounds the number of pieces.\<close>

fun pieces :: "nat \<Rightarrow> nat \<Rightarrow> 'a list \<Rightarrow> 'a list list" where
  "pieces 0 n xs = []"
| "pieces (Suc k) n xs = (if xs = [] then [] else take n xs # pieces k n (drop n xs))"

definition blocks :: "nat \<Rightarrow> 'a list \<Rightarrow> 'a list list" where
  "blocks n xs = pieces (length xs) n xs"

definition rotl32 :: "nat \<Rightarrow> u32 \<Rightarrow> u32" where
  "rotl32 n w = push_bit n w OR drop_bit (32 - n) w"

definition rotr32 :: "nat \<Rightarrow> u32 \<Rightarrow> u32" where
  "rotr32 n w = drop_bit n w OR push_bit (32 - n) w"

subsection \<open>MD5 (\<open>hashlib.md5\<close>, RFC 1321)\<close>

definition md5_pad :: "bytes \<Rightarrow> bytes" where
  "md5_pad m = m @ [128] @ replicate (pad_zeros (length m)) 0 @ le_bytes64 (bit_length m)"

definition md5_K :: "u32 list" where
  "md5_K =
    [0xd76aa478, 0xe8c7b756, 0x242070db, 0xc1bdceee,
     0xf57c0faf, 0x4787c62a, 0xa8304613, 0xfd469501,
     0x698098d8, 0x8b44f7af, 0xffff5bb1, 0x895cd7be,
     0x6b901122, 0xfd987193, 0xa679438e, 0x49b40821,
     0xf61e2562, 0xc040b340, 0x265e5a51, 0xe9b6c7aa,
     0xd62f105d, 0x02441453, 0xd8a1e681, 0xe7d3fbc8,
     0x21e1cde6, 0xc33707d6, 0xf4d50d87, 0x455a14ed,
     0xa9e3e905, 0xfcefa3f8, 0x676f02d9, 0x8d2a4c8a,
     0xfffa3942, 0x8771f681, 0x6d9d6122, 0xfde5380c,
     0xa4beea44, 0x4bdecfa9, 0xf6bb4b60, 0xbebfbc70,
     0x289b7ec6, 0xeaa127fa, 0xd4ef3085, 0x04881d05,
     0xd9d4d039, 0xe6db99e5, 0x1fa27cf8, 0xc4ac5665,
     0xf4292244, 0x432aff97, 0xab9423a7, 0xfc93a039,
     0x655b59c3, 0x8f0ccc92, 0xffeff47d, 0x85845dd1,
     0x6fa87e4f, 0xfe2ce6e0, 0xa3014314, 0x4e0811a1,
     0xf7537e82, 0xbd3af235, 0x2ad7d2bb, 0xeb86d391]"

definition md5_S :: "nat list" where
  "md5_S =
    [7, 12, 17, 22, 7, 12, 17, 22, 7, 12, 17, 22, 7, 12, 17, 22,
     5, 9, 14, 20, 5, 9, 14, 20, 5, 9, 14, 20, 5, 9, 14, 20,
     4, 11, 16, 23, 4, 11, 16, 23, 4, 11, 16, 23, 4, 11, 16, 23,
     6, 10, 15, 21, 6, 10, 15, 21, 6, 10, 15, 21, 6, 10, 15, 21]"

type_synonym md5_state = "u32 \<times> u32 \<times> u32 \<times> u32"

definition md5_F :: "nat \<Rightarrow> u32 \<Rightarrow> u32 \<Rightarrow> u32 \<Rightarrow> u32" where
  "md5_F i b c d =
     (if i < 16 then (b AND c) OR (NOT b AND d)
      else if i < 32 then (d AND b) OR (NOT d AND c)
      else if i < 48 then b XOR c XOR d
      else c XOR (b OR NOT d))"

definition md5_g :: "nat \<Rightarrow> nat" where
  "md5_g i =
     (if i < 16 then i
      else if i < 32 then (5 * i + 1) mod 16
      else if i < 48 then (3 * i + 5) mod 16
      else (7 * i) mod 16)"

definition md5_round :: "u32 list \<Rightarrow> md5_state \<Rightarrow> nat \<Rightarrow> md5_state" where
  "md5_round M s i =
     (case s of (a, b, c, d) \<Rightarrow>
        let f = md5_F i b c d + a + md5_K ! i + M ! md5_g i
        in (d, b + rotl32 (md5_S ! i) f, b, c))"

definition md5_block :: "md5_state \<Rightarrow> bytes \<Rightarrow> md5_state" where
  "md5_block h blk =
     (let M = map le_word32 (blocks 4 blk)
      in case (h, foldl (md5_round M) h [0..<64]) of
           ((a0, b0, c0, d0), (a, b, c, d)) \<Rightarrow> (a0 + a, b0 + b, c0 + c, d0 + d))"

definition md5_init :: md5_state where
  "md5_init = (0x67452301, 0xefcdab89, 0x98badcfe, 0x10325476)"

definition md5_digest :: "bytes \<Rightarrow> bytes" where
  "md5_digest m =
     (case foldl md5_block md5_init (blocks 64 (md5_pad m)) of
        (a, b, c, d) \<Rightarrow> le_bytes32 a @ le_bytes32 b @ le_bytes32 c @ le_bytes32 d)"

definition md5_hexdigest :: "bytes \<Rightarrow> string" where
  "md5_hexdigest m = hexlify (md5_digest m)"

subsection \<open>SHA-256 (\<open>hashlib.sha256\<close>, FIPS 180-4)\<close>

definition sha256_pad :: "bytes \<Rightarrow> bytes" where
  "sha256_pad m = m @ [128] @ replicate (pad_zeros (length m)) 0 @ be_bytes64 (bit_length m)"

text \<open>The round constants, four rounds to a row.\<close>

definition sha256_K :: "u32 list" where
  "sha256_K = concat
    [[0x428a2f98, 0x71374491, 0xb5c0fbcf, 0xe9b5dba5],
     [0x3956c25b, 0x59f111f1, 0x923f82a4, 0xab1c5ed5],
     [0xd807aa98, 0x12835b01, 0x243185be, 0x550c7dc3],
     [0x72be5d74, 0x80deb1fe, 0x9bdc06a7, 0xc19bf174],
     [0xe49b69c1, 0xefbe4786, 0x0fc19dc6, 0x240ca1cc],
     [0x2de92c6f, 0x4a7484aa, 0x5cb0a9dc, 0x76f988da],
     [0x983e5152, 0xa831c66d, 0xb00327c8, 0xbf597fc7],
     [0xc6e00bf3, 0xd5a79147, 0x06ca6351, 0x14292967],
     [0x27b70a85, 0x2e1b2138, 0x4d2c6dfc, 0x53380d13],
     [0x650a7354, 0x766a0abb, 0x81c2c92e, 0x92722c85],
     [0xa2bfe8a1, 0xa81a664b, 0xc24b8b70, 0xc76c51a3],
     [0xd192e819, 0xd6990624, 0xf40e3585, 0x106aa070],
     [0x19a4c116, 0x1e376c08, 0x2748774c, 0x34b0bcb5],
     [0x391c0cb3, 0x4ed8aa4a, 0x5b9cca4f, 0x682e6ff3],
     [0x748f82ee, 0x78a5636f, 0x84c87814, 0x8cc70208],
     [0x90befffa, 0xa4506ceb, 0xbef9a3f7, 0xc67178f2]]"

definition sha256_init :: "u32 list" where
  "sha256_init =
    [0x6a09e667, 0xbb67ae85, 0x3c6ef372, 0xa54ff53a,
     0x510e527f, 0x9b05688c, 0x1f83d9ab, 0x5be0cd19]"

definition ssig0 :: "u32 \<Rightarrow> u32" where
  "ssig0 x = rotr32 7 x XOR rotr32 18 x XOR drop_bit 3 x"

definition ssig1 :: "u32 \<Rightarrow> u32" where
  "ssig1 x = rotr32 17 x XOR rotr32 19 x XOR drop_bit 10 x"

definition bsig0 :: "u32 \<Rightarrow> u32" where
  "bsig0 x = rotr32 2 x XOR rotr32 13 x XOR rotr32 22 x"

definition bsig1 :: "u32 \<Rightarrow> u32" where
  "bsig1 x = rotr32 6 x XOR rotr32 11 x XOR rotr32 25 x"

definition sha256_extend :: "u32 list \<Rightarrow> nat \<Rightarrow> u32 list" where
  "sha256_extend w i =
     w @ [ssig1 (w ! (i - 2)) + w ! (i - 7) + ssig0 (w ! (i - 15)) + w ! (i - 16)]"

definition sha256_schedule :: "bytes \<Rightarrow> u32 list" where
  "sha256_schedule blk = foldl sha256_extend (map be_word32 (blocks 4 blk)) [16..<64]"

definition sha256_round :: "u32 list \<Rightarrow> u32 list \<Rightarrow> nat \<Rightarrow> u32 list" where
  "sha256_round w s i =
     (case s of
        [a, b, c, d, e, f, g, h] \<Rightarrow>
          let t1 = h + bsig1 e + ((e AND f) XOR (NOT e AND g)) + sha256_K ! i + w ! i;
              t2 = bsig0 a + ((a AND b) XOR (a AND c) XOR (b AND c))
          in [t1 + t2, a, b, c, d + t1, e, f, g]
      | _ \<Rightarrow> s)"

definition sha256_block :: "u32 list \<Rightarrow> bytes \<Rightarrow> u32 list" where
  "sha256_block h blk =
     map2 (+) h (foldl (sha256_round (sha256_schedule blk)) h [0..<64])"

definition sha256_digest :: "bytes \<Rightarrow> bytes" where
  "sha256_digest m =
     concat (map be_bytes32 (foldl sha256_block sha256_init (blocks 64 (sha256_pad m))))"

definition sha256_hexdigest :: "bytes \<Rightarrow> string" where
  "sha256_hexdigest m = hexlify (sha256_digest m)"


section \<open>The build identifier (\<open>core.py\<close>)\<close>

text \<open>
  A path and a classification can hold any code point: a file name that \<open>os.fsdecode\<close>
  has decoded holds a lone surrogate for each byte that is no UTF-8. So here a \<open>str\<close> is
  the list of its code points as numbers. \<open>str.encode()\<close> gives one to four bytes for a
  code point and raises UnicodeEncodeError on a surrogate (U+D800 to U+DFFF); a number
  from 0x110000 on is no code point, and no \<open>str\<close> holds one.
\<close>

type_synonym py_str = "nat list"

datatype py_error = UnicodeEncodeError

definition encodable :: "nat \<Rightarrow> bool" where
  "encodable n = (n < 0xD800 \<or> 0xE000 \<le> n \<and> n < 0x110000)"

definition utf8_codepoint :: "nat \<Rightarrow> bytes option" where
  "utf8_codepoint n =
     (if n < 0x80 then Some [of_nat n]
      else if n < 0x800 then Some [of_nat (0xC0 + n div 0x40), of_nat (0x80 + n mod 0x40)]
      else if 0xD800 \<le> n \<and> n < 0xE000 then None
      else if n < 0x10000 then
        Some [of_nat (0xE0 + n div 0x1000), of_nat (0x80 + n div 0x40 mod 0x40),
              of_nat (0x80 + n mod 0x40)]
      else if n < 0x110000 then
        Some [of_nat (0xF0 + n div 0x40000), of_nat (0x80 + n div 0x1000 mod 0x40),
              of_nat (0x80 + n div 0x40 mod 0x40), of_nat (0x80 + n mod 0x40)]
      else None)"

fun str_encode :: "py_str \<Rightarrow> py_error + bytes" where
  "str_encode [] = Inr []"
| "str_encode (n # ns) =
     (case utf8_codepoint n of
        None \<Rightarrow> Inl UnicodeEncodeError
      | Some bs \<Rightarrow> (case str_encode ns of Inl e \<Rightarrow> Inl e | Inr rest \<Rightarrow> Inr (bs @ rest)))"

text \<open>A \<open>str\<close> of code points up to U+00FF, as the logger below has them.\<close>

definition code_points :: "string \<Rightarrow> py_str" where
  "code_points s = map of_char s"

text \<open>
  \<open>_generate_build_hash\<close>: the first 16 characters of the MD5 hex digest of the path,
  the classification and \<open>datetime.now().isoformat()\<close>, which is the argument \<open>now\<close>.
  The exception of \<open>content.encode()\<close> leaves the function.
\<close>

definition generate_build_hash :: "py_str \<Rightarrow> py_str \<Rightarrow> py_str \<Rightarrow> py_error + string" where
  "generate_build_hash tex_file classification now =
     (case str_encode (tex_file @ classification @ now) of
        Inl e \<Rightarrow> Inl e
      | Inr content \<Rightarrow> Inr (take 16 (md5_hexdigest content)))"

section \<open>The libraries and the environment of the build logger (\<open>logger.py\<close>)\<close>

text \<open>What \<open>json.loads\<close> can return (floats left out: no claim reads one).\<close>

datatype json =
    JNull
  | JBool bool
  | JInt int
  | JStr string
  | JList "json list"
  | JDict "(string \<times> json) list"

text \<open>
  \<open>build_data.get(k, default)\<close>: only a dict has \<open>get\<close>; on any other value Python
  raises AttributeError, which is \<open>None\<close> here. A dict is the list of its items.
\<close>

definition dict_get :: "(string \<times> json) list \<Rightarrow> string \<Rightarrow> json \<Rightarrow> json" where
  "dict_get kvs k dflt = (case map_of kvs k of Some v \<Rightarrow> v | None \<Rightarrow> dflt)"

fun py_get :: "json \<Rightarrow> string \<Rightarrow> json \<Rightarrow> json option" where
  "py_get (JDict kvs) k dflt = Some (dict_get kvs k dflt)"
| "py_get _ k dflt = None"

text \<open>
  The calls into \<open>cryptography.fernet\<close>, \<open>base64\<close> and \<open>json\<close>. A call that raises
  returns \<open>None\<close>. \<open>fernet_encrypt\<close> takes the key, the time and IV it draws, and the
  data; \<open>b64encode\<close> is \<open>base64.b64encode(x).decode()\<close>; \<open>json_loads\<close> is
  \<open>json.loads(data.decode())\<close>.
\<close>

record libs =
  fernet_key_ok :: "bytes \<Rightarrow> bool"
  fernet_encrypt :: "bytes \<Rightarrow> bytes \<Rightarrow> bytes \<Rightarrow> bytes"
  fernet_decrypt :: "bytes \<Rightarrow> bytes \<Rightarrow> bytes option"
  b64encode :: "bytes \<Rightarrow> string"
  b64decode :: "string \<Rightarrow> bytes option"
  json_dumps :: "json \<Rightarrow> string"
  json_loads :: "bytes \<Rightarrow> json option"

text \<open>
  What one call of \<open>log_build\<close> reads from outside: the variable USER, the two clocks,
  the size of a file that exists, the randomness of \<open>Fernet.encrypt\<close>, and the
  fingerprint that \<open>KeyManager.get_user_fingerprint\<close> returns (\<open>None\<close> when it returns
  \<open>None\<close> or raises).
\<close>

record env =
  environ_USER :: "string option"
  now_isoformat :: string
  utcnow_isoformat :: string
  getsize :: "string \<Rightarrow> nat option"
  urandom :: bytes
  get_user_fingerprint :: "string option"

subsection \<open>The table \<open>encrypted_builds\<close>\<close>

record row =
  row_id :: nat
  build_hash :: string
  encrypted_data :: string
  user_fingerprint :: string
  user_signature :: string
  timestamp_utc :: string

text \<open>The rows in rowid order, and the AUTOINCREMENT counter: the largest rowid given out so far.\<close>

record table =
  rows :: "row list"
  seq :: nat

definition empty_table :: table where
  "empty_table = \<lparr>rows = [], seq = 0\<rparr>"

text \<open>
  AUTOINCREMENT: the next rowid is one more than the largest rowid that the table holds
  or has ever given out.
\<close>

definition next_rowid :: "table \<Rightarrow> nat" where
  "next_rowid t = Suc (max (seq t) (fold max (map row_id (rows t)) 0))"

text \<open>
  \<open>INSERT OR REPLACE\<close>: the row that holds the same \<open>build_hash\<close> (the UNIQUE column)
  is deleted, and the new row gets the next rowid, which is \<open>cursor.lastrowid\<close>.
\<close>

definition insert_or_replace ::
  "table \<Rightarrow> string \<Rightarrow> string \<Rightarrow> string \<Rightarrow> string \<Rightarrow> string \<Rightarrow> nat \<times> table" where
  "insert_or_replace t h d fp sg ts =
     (let new_id = next_rowid t;
          r = \<lparr>row_id = new_id, build_hash = h, encrypted_data = d,
               user_fingerprint = fp, user_signature = sg, timestamp_utc = ts\<rparr>
      in (new_id, \<lparr>rows = filter (\<lambda>x. build_hash x \<noteq> h) (rows t) @ [r], seq = new_id\<rparr>))"

text \<open>\<open>SELECT ... WHERE build_hash = ?\<close> with \<open>fetchone()\<close>.\<close>

definition select_build :: "table \<Rightarrow> string \<Rightarrow> row option" where
  "select_build t h = find (\<lambda>r. build_hash r = h) (rows t)"

text \<open>
  \<open>ORDER BY timestamp_utc DESC\<close> compares the stored texts byte by byte. Rows of equal
  timestamp keep their rowid order here; SQLite does not promise an order among them, and
  no theorem below depends on it.
\<close>

fun insert_desc :: "row \<Rightarrow> row list \<Rightarrow> row list" where
  "insert_desc r [] = [r]"
| "insert_desc r (x # xs) =
     (if timestamp_utc x < timestamp_utc r then r # x # xs else x # insert_desc r xs)"

definition order_by_timestamp_desc :: "row list \<Rightarrow> row list" where
  "order_by_timestamp_desc rs = foldl (\<lambda>acc r. insert_desc r acc) [] rs"

text \<open>
  \<open>LIMIT ?\<close>: a negative limit is no limit; a Python int outside 64 bits cannot be bound
  to the parameter (OverflowError), which is \<open>None\<close>.
\<close>

definition sql_limit :: "int \<Rightarrow> 'a list \<Rightarrow> 'a list option" where
  "sql_limit limit xs =
     (if limit < - (2 ^ 63) \<or> 2 ^ 63 \<le> limit then None
      else if limit < 0 then Some xs
      else Some (take (nat limit) xs))"

subsection \<open>The logger\<close>

text \<open>
  The key file beside the database (\<open>None\<close>: no file), the table (\<open>None\<close>: the database
  cannot be opened or has no table \<open>encrypted_builds\<close>, so that every statement on it
  raises), and the attribute \<open>self.fernet\<close>, which holds the key (\<open>None\<close>: the attribute
  was never set).
\<close>

record ledger =
  key_file :: "bytes option"
  db :: "table option"
  fernet :: "bytes option"

text \<open>
  What the two file operations of \<open>_init_encrypted_database\<close> meet: \<open>open\<close> on the key
  file raises when the parent directory is missing or the file cannot be read or written;
  \<open>sqlite3.connect\<close> or the \<open>CREATE TABLE\<close> raises when the database cannot be opened.
\<close>

record disk_io =
  open_key_ok :: bool
  connect_ok :: bool

definition io_ok :: disk_io where
  "io_ok = \<lparr>open_key_ok = True, connect_ok = True\<rparr>"

text \<open>
  \<open>_init_encrypted_database\<close>; \<open>fresh_key\<close> is what \<open>Fernet.generate_key()\<close> returns.
  Its handler catches every exception and prints: when \<open>open\<close> raises nothing is written
  and \<open>self.fernet\<close> is not set; when \<open>Fernet(db_key)\<close> raises the schema is not created;
  when the database cannot be opened \<open>self.fernet\<close> is set and no table is made.
\<close>

definition init_encrypted_database :: "libs \<Rightarrow> bytes \<Rightarrow> disk_io \<Rightarrow> ledger \<Rightarrow> ledger" where
  "init_encrypted_database L fresh_key io st =
     (if \<not> open_key_ok io then st
      else
        let st1 = (case key_file st of None \<Rightarrow> st\<lparr>key_file := Some fresh_key\<rparr> | Some k \<Rightarrow> st);
            db_key = (case key_file st of None \<Rightarrow> fresh_key | Some k \<Rightarrow> k)
        in if \<not> fernet_key_ok L db_key then st1
           else if \<not> connect_ok io then st1\<lparr>fernet := Some db_key\<rparr>
           else st1\<lparr>fernet := Some db_key,
                    db := Some (case db st1 of None \<Rightarrow> empty_table | Some t \<Rightarrow> t)\<rparr>)"

text \<open>\<open>BuildLogger(db_path)\<close> on the files found at that path.\<close>

definition BuildLogger ::
  "libs \<Rightarrow> bytes \<Rightarrow> disk_io \<Rightarrow> bytes option \<Rightarrow> table option \<Rightarrow> ledger" where
  "BuildLogger L fresh_key io kf d =
     init_encrypted_database L fresh_key io \<lparr>key_file = kf, db = d, fernet = None\<rparr>"

definition pdf_password_hint :: "string option \<Rightarrow> json" where
  "pdf_password_hint pdf_password =
     (case pdf_password of
        None \<Rightarrow> JNull
      | Some p \<Rightarrow> if p = [] then JNull else JStr (take 8 p @ ''...''))"

definition opt_str :: "string option \<Rightarrow> json" where
  "opt_str s = (case s of None \<Rightarrow> JNull | Some x \<Rightarrow> JStr x)"

definition pdf_size_of :: "env \<Rightarrow> string option \<Rightarrow> int" where
  "pdf_size_of E pdf_path =
     (case pdf_path of
        None \<Rightarrow> 0
      | Some p \<Rightarrow> if p = [] then 0 else (case getsize E p of None \<Rightarrow> 0 | Some n \<Rightarrow> int n))"

text \<open>The dict \<open>build_data\<close> of \<open>log_build\<close>.\<close>

definition build_data_of ::
  "env \<Rightarrow> string \<Rightarrow> string \<Rightarrow> string \<Rightarrow> string \<Rightarrow> string \<Rightarrow>
   string option \<Rightarrow> string option \<Rightarrow> string option \<Rightarrow> json" where
  "build_data_of E h generation_info generation_time classification main_file
      pdf_path pdf_password recipient_token =
     JDict [
       (''build_hash'', JStr h),
       (''generation_info'', JStr generation_info),
       (''generation_time'', JStr generation_time),
       (''classification'', JStr classification),
       (''main_file'', JStr main_file),
       (''pdf_path'', opt_str pdf_path),
       (''pdf_password_hint'', pdf_password_hint pdf_password),
       (''user'', JStr (case environ_USER E of None \<Rightarrow> ''unknown'' | Some u \<Rightarrow> u)),
       (''timestamp_iso'', JStr (now_isoformat E)),
       (''pdf_size'', JInt (pdf_size_of E pdf_path)),
       (''recipient_token'', opt_str recipient_token)]"

text \<open>The two lines that encrypt \<open>build_data\<close> and give the text stored in the table.\<close>

definition encrypt_data :: "libs \<Rightarrow> env \<Rightarrow> bytes \<Rightarrow> json \<Rightarrow> string" where
  "encrypt_data L E key build_data =
     (let encrypted_token = fernet_encrypt L key (urandom E) (utf8_encode (json_dumps L build_data))
      in b64encode L encrypted_token)"

text \<open>
  The two lines that every reader of the table runs on a stored text:
  \<open>self.fernet.decrypt(base64.b64decode(encrypted_data))\<close>, then
  \<open>json.loads(decrypted_data.decode())\<close>. \<open>None\<close> when one of them raises.
\<close>

definition decrypt_data :: "libs \<Rightarrow> bytes option \<Rightarrow> string \<Rightarrow> json option" where
  "decrypt_data L f d =
     (case f of
        None \<Rightarrow> None
      | Some key \<Rightarrow>
          (case b64decode L d of
             None \<Rightarrow> None
           | Some tok \<Rightarrow>
               (case fernet_decrypt L key tok of
                  None \<Rightarrow> None
                | Some decrypted_data \<Rightarrow> json_loads L decrypted_data)))"

text \<open>
  \<open>log_build\<close> returns the build id and leaves the new row in the table; every exception
  is caught, returns \<open>None\<close> and leaves the table as it was.
\<close>

definition log_build ::
  "libs \<Rightarrow> env \<Rightarrow> ledger \<Rightarrow> string \<Rightarrow> string \<Rightarrow> string \<Rightarrow> string \<Rightarrow> string \<Rightarrow>
   string option \<Rightarrow> string option \<Rightarrow> string option \<Rightarrow> nat option \<times> ledger" where
  "log_build L E st h generation_info generation_time classification main_file
      pdf_path pdf_password recipient_token =
     (let build_data = build_data_of E h generation_info generation_time classification
                         main_file pdf_path pdf_password recipient_token
      in case fernet st of
           None \<Rightarrow> (None, st)
         | Some key \<Rightarrow>
             let encrypted_data_b64 = encrypt_data L E key build_data;
                 signature_data = h @ encrypted_data_b64;
                 signature = sha256_hexdigest (utf8_encode signature_data)
             in (case get_user_fingerprint E of
                   None \<Rightarrow> (None, st)
                 | Some fp \<Rightarrow>
                     (case db st of
                        None \<Rightarrow> (None, st)
                      | Some t \<Rightarrow>
                          (case insert_or_replace t h encrypted_data_b64 fp signature
                                  (utcnow_isoformat E) of
                             (build_id, t') \<Rightarrow> (Some build_id, st\<lparr>db := Some t'\<rparr>)))))"

definition verify_build :: "libs \<Rightarrow> ledger \<Rightarrow> string \<Rightarrow> bool" where
  "verify_build L st h =
     (case db st of
        None \<Rightarrow> False
      | Some t \<Rightarrow>
          (case select_build t h of
             None \<Rightarrow> False
           | Some r \<Rightarrow>
               let signature_data = h @ encrypted_data r;
                   expected_signature = sha256_hexdigest (utf8_encode signature_data)
               in if expected_signature \<noteq> user_signature r then False
                  else (case decrypt_data L (fernet st) (encrypted_data r) of
                          None \<Rightarrow> False
                        | Some build_data \<Rightarrow>
                            (case py_get build_data ''classification'' (JStr ''unknown'') of
                               None \<Rightarrow> False
                             | Some c \<Rightarrow> True))))"

record build_summary =
  s_build_hash :: string
  s_classification :: json
  s_main_file :: json
  s_user_fingerprint :: string
  s_timestamp_iso :: json
  s_pdf_size :: json

text \<open>The body of the loop of \<open>list_builds\<close>: \<open>None\<close> is the \<open>continue\<close> of its handler.\<close>

definition list_entry :: "libs \<Rightarrow> bytes option \<Rightarrow> row \<Rightarrow> build_summary option" where
  "list_entry L f r =
     (case decrypt_data L f (encrypted_data r) of
        None \<Rightarrow> None
      | Some build_data \<Rightarrow>
          (case build_data of
             JDict kvs \<Rightarrow>
               Some \<lparr>s_build_hash = build_hash r,
                     s_classification = dict_get kvs ''classification'' (JStr ''unknown''),
                     s_main_file = dict_get kvs ''main_file'' (JStr ''unknown''),
                     s_user_fingerprint = user_fingerprint r,
                     s_timestamp_iso = dict_get kvs ''timestamp_iso'' (JStr (timestamp_utc r)),
                     s_pdf_size = dict_get kvs ''pdf_size'' (JInt 0)\<rparr>
           | _ \<Rightarrow> None))"

definition list_builds :: "libs \<Rightarrow> ledger \<Rightarrow> int \<Rightarrow> build_summary list" where
  "list_builds L st limit =
     (case db st of
        None \<Rightarrow> []
      | Some t \<Rightarrow>
          (case sql_limit limit (order_by_timestamp_desc (rows t)) of
             None \<Rightarrow> []
           | Some results \<Rightarrow> List.map_filter (list_entry L (fernet st)) results))"

record token_match =
  m_build_hash :: string
  m_classification :: json
  m_timestamp_iso :: json
  m_user_fingerprint :: string
  m_main_file :: json
  m_pdf_path :: json

text \<open>
  The body of the loop of \<open>find_by_recipient_token\<close>: \<open>Some\<close> is its \<open>return\<close>, \<open>None\<close>
  goes on to the next row (the token differs, or the handler's \<open>continue\<close>).
\<close>

definition token_entry :: "libs \<Rightarrow> bytes option \<Rightarrow> string \<Rightarrow> row \<Rightarrow> token_match option" where
  "token_entry L f token r =
     (case decrypt_data L f (encrypted_data r) of
        None \<Rightarrow> None
      | Some build_data \<Rightarrow>
          (case build_data of
             JDict kvs \<Rightarrow>
               if dict_get kvs ''recipient_token'' JNull = JStr token
               then Some \<lparr>m_build_hash = build_hash r,
                          m_classification = dict_get kvs ''classification'' (JStr ''unknown''),
                          m_timestamp_iso = dict_get kvs ''timestamp_iso'' (JStr (timestamp_utc r)),
                          m_user_fingerprint = user_fingerprint r,
                          m_main_file = dict_get kvs ''main_file'' JNull,
                          m_pdf_path = dict_get kvs ''pdf_path'' JNull\<rparr>
               else None
           | _ \<Rightarrow> None))"

fun first_match :: "('a \<Rightarrow> 'b option) \<Rightarrow> 'a list \<Rightarrow> 'b option" where
  "first_match f [] = None"
| "first_match f (r # rs) = (case f r of Some m \<Rightarrow> Some m | None \<Rightarrow> first_match f rs)"

definition find_by_recipient_token :: "libs \<Rightarrow> ledger \<Rightarrow> string \<Rightarrow> token_match option" where
  "find_by_recipient_token L st token =
     (case db st of
        None \<Rightarrow> None
      | Some t \<Rightarrow> first_match (token_entry L (fernet st) token) (order_by_timestamp_desc (rows t)))"

subsection \<open>Reading the table\<close>

text \<open>The rows of the table, none when it does not exist.\<close>

definition rows_of :: "ledger \<Rightarrow> row list" where
  "rows_of st = (case db st of None \<Rightarrow> [] | Some t \<Rightarrow> rows t)"

definition lookup :: "ledger \<Rightarrow> string \<Rightarrow> row option" where
  "lookup st h = (case db st of None \<Rightarrow> None | Some t \<Rightarrow> select_build t h)"

text \<open>The UNIQUE constraint on \<open>build_hash\<close>, which SQLite keeps on every write.\<close>

definition db_unique :: "ledger \<Rightarrow> bool" where
  "db_unique st = distinct (map build_hash (rows_of st))"

text \<open>
  A write to the backing store from outside the logger:
  \<open>UPDATE encrypted_builds SET encrypted_data = ? WHERE build_hash = ?\<close>.
\<close>

definition update_encrypted_data :: "ledger \<Rightarrow> string \<Rightarrow> string \<Rightarrow> ledger" where
  "update_encrypted_data st h d =
     (case db st of
        None \<Rightarrow> st
      | Some t \<Rightarrow>
          st\<lparr>db := Some (t\<lparr>rows :=
            map (\<lambda>r. if build_hash r = h then r\<lparr>encrypted_data := d\<rparr> else r) (rows t)\<rparr>)\<rparr>)"

text \<open>The rows that the query of \<open>list_builds\<close> fetches; none when the query raises.\<close>

definition fetched_rows :: "ledger \<Rightarrow> int \<Rightarrow> row list" where
  "fetched_rows st limit =
     (case sql_limit limit (order_by_timestamp_desc (rows_of st)) of
        None \<Rightarrow> []
      | Some results \<Rightarrow> results)"

text \<open>A row is readable when its stored text decrypts and parses to a dict.\<close>

definition readable :: "libs \<Rightarrow> bytes option \<Rightarrow> row \<Rightarrow> bool" where
  "readable L f r =
     (case decrypt_data L f (encrypted_data r) of
        Some (JDict kvs) \<Rightarrow> True
      | _ \<Rightarrow> False)"

text \<open>A row carries a token when it is readable and its metadata holds that token.\<close>

definition carries :: "libs \<Rightarrow> bytes option \<Rightarrow> string \<Rightarrow> row \<Rightarrow> bool" where
  "carries L f token r =
     (case decrypt_data L f (encrypted_data r) of
        Some (JDict kvs) \<Rightarrow> dict_get kvs ''recipient_token'' JNull = JStr token
      | _ \<Rightarrow> False)"

text \<open>One call of \<open>log_build\<close>: what it reads from outside, and its eight arguments.\<close>

type_synonym log_call =
  "env \<times> string \<times> string \<times> string \<times> string \<times> string \<times>
   string option \<times> string option \<times> string option"

fun log_builds :: "libs \<Rightarrow> ledger \<Rightarrow> log_call list \<Rightarrow> ledger" where
  "log_builds L st [] = st"
| "log_builds L st ((E, h, gi, gt, c, mf, pp, pw, rt) # calls) =
     log_builds L (snd (log_build L E st h gi gt c mf pp pw rt)) calls"

section \<open>The invisible token of the generated style (\<open>core.py\<close>)\<close>

text \<open>
  \<open>_create_basic_style\<close> writes a fixed text. Its macro \<open>\capyInvisibleToken\<close> sets one
  text run, the argument of \<open>\raisebox{1pt}\<close>; \<open>_run_latex_build\<close> defines the macro
  \<open>\capyRecipientToken\<close> as the token when one is given. A backslash is \<open>bslash\<close>.
\<close>

definition bslash :: char where
  "bslash = CHR 0x5C"

definition token_macro :: string where
  "token_macro = bslash # ''capyRecipientToken''"

definition invisible_token_line :: string where
  "invisible_token_line =
     bslash # ''hspace{1pt}'' @ bslash # ''raisebox{1pt}{TNC_TOKEN:~'' @ token_macro @
     ''}% tiny, off-grid''"

definition invisible_token_run :: string where
  "invisible_token_run = ''TNC_TOKEN:~'' @ token_macro"

text \<open>
  What TeX does with a macro defined by \<open>\def\<close>: each call in the text is replaced by the
  body. The tie \<open>~\<close> is no macro call and stays; it is typeset as an unbreakable space.
\<close>

function replace_macro :: "string \<Rightarrow> string \<Rightarrow> string \<Rightarrow> string" where
  "replace_macro name body [] = []"
| "replace_macro name body (c # cs) =
     (if name \<noteq> [] \<and> prefix name (c # cs)
      then body @ replace_macro name body (drop (length name) (c # cs))
      else c # replace_macro name body cs)"
  by pat_completeness auto
termination
  by (relation "measure (\<lambda>(name, body, text). length text)") auto

definition emitted_run :: "string \<Rightarrow> string" where
  "emitted_run token = replace_macro token_macro token invisible_token_run"

section \<open>A small instance of the libraries\<close>

text \<open>
  The theorems below hold for every \<open>libs\<close>. This instance shows that their hypotheses
  can be met, on the two builds of the specification's scenario: \<open>B1\<close> (SECRET, token
  alice) and \<open>B2\<close> (PUBLIC, token bob). Its cipher puts the key in front of the data, its
  base64 is the identity on bytes, and its JSON knows the two records only.
\<close>

definition demo_env :: "string \<Rightarrow> string \<Rightarrow> env" where
  "demo_env fp ts =
     \<lparr>environ_USER = Some ''op'', now_isoformat = ts, utcnow_isoformat = ts,
      getsize = (\<lambda>p. None), urandom = [], get_user_fingerprint = Some fp\<rparr>"

definition demo_B1 :: json where
  "demo_B1 = build_data_of (demo_env ''fp01'' ''2025-08-17T10:00:00'')
     ''B1'' ''gi'' ''gt'' ''SECRET'' ''doc.tex'' None None (Some ''alice'')"

definition demo_B2 :: json where
  "demo_B2 = build_data_of (demo_env ''fp01'' ''2025-08-17T11:00:00'')
     ''B2'' ''gi'' ''gt'' ''PUBLIC'' ''doc.tex'' None None (Some ''bob'')"

definition bytes_str :: "bytes \<Rightarrow> string" where
  "bytes_str bs = map (\<lambda>b. char_of (unat b)) bs"

definition str_bytes :: "string \<Rightarrow> bytes" where
  "str_bytes s = map (\<lambda>c. of_nat (of_char c)) s"

definition demo_libs :: libs where
  "demo_libs =
     \<lparr>fernet_key_ok = (\<lambda>k. k \<noteq> []),
      fernet_encrypt = (\<lambda>k iv m. k @ m),
      fernet_decrypt = (\<lambda>k t. if take (length k) t = k then Some (drop (length k) t) else None),
      b64encode = bytes_str,
      b64decode = (\<lambda>s. Some (str_bytes s)),
      json_dumps = (\<lambda>v. case py_get v ''build_hash'' JNull of Some (JStr h) \<Rightarrow> h | _ \<Rightarrow> []),
      json_loads = (\<lambda>bs. if bs = str_bytes ''B1'' then Some demo_B1
                          else if bs = str_bytes ''B2'' then Some demo_B2
                          else None)\<rparr>"

definition demo_key :: bytes where
  "demo_key = str_bytes ''K1''"

definition demo_ledger0 :: ledger where
  "demo_ledger0 = BuildLogger demo_libs demo_key io_ok None None"

definition demo_call1 :: log_call where
  "demo_call1 = (demo_env ''fp01'' ''2025-08-17T10:00:00'',
     ''B1'', ''gi'', ''gt'', ''SECRET'', ''doc.tex'', None, None, Some ''alice'')"

definition demo_call2 :: log_call where
  "demo_call2 = (demo_env ''fp01'' ''2025-08-17T11:00:00'',
     ''B2'', ''gi'', ''gt'', ''PUBLIC'', ''doc.tex'', None, None, Some ''bob'')"

definition demo_ledger2 :: ledger where
  "demo_ledger2 = log_builds demo_libs demo_ledger0 [demo_call1, demo_call2]"

text \<open>The first build logged under the fingerprint \<open>fp\<close>.\<close>

definition demo_ledger1 :: "string \<Rightarrow> ledger" where
  "demo_ledger1 fp =
     snd (log_build demo_libs (demo_env fp ''2025-08-17T10:00:00'') demo_ledger0
            ''B1'' ''gi'' ''gt'' ''SECRET'' ''doc.tex'' None None (Some ''alice''))"

text \<open>The first build logged once more, an hour after the second.\<close>

definition demo_ledger3 :: ledger where
  "demo_ledger3 =
     snd (log_build demo_libs (demo_env ''fp01'' ''2025-08-17T12:00:00'') demo_ledger2
            ''B1'' ''gi'' ''gt'' ''SECRET'' ''doc.tex'' None None (Some ''alice''))"

text \<open>The stored text of the first build overwritten in the backing store.\<close>

definition demo_corrupted :: ledger where
  "demo_corrupted = update_encrypted_data demo_ledger2 ''B1'' ''K9B1''"

text \<open>The table of the two builds, found by a logger whose key file is gone.\<close>

definition demo_reopened :: ledger where
  "demo_reopened = BuildLogger demo_libs (str_bytes ''K2'') io_ok None (db demo_ledger2)"

text \<open>The stored text of the second, newest build overwritten in the backing store.\<close>

definition demo_corrupted_newest :: ledger where
  "demo_corrupted_newest = update_encrypted_data demo_ledger2 ''B2'' ''K9B2''"







section \<open>Shape of the digests\<close>

lemma length_hex_byte: "length (hex_byte b) = 2"
  by (simp add: hex_byte_def)
lemma length_hexlify: "length (hexlify bs) = 2 * length bs"
  by (induction bs) (simp_all add: hexlify_def length_hex_byte)
lemma length_hexdigits: "length hexdigits = 16"
  by (simp add: hexdigits_def)
lemma set_hex_byte: "set (hex_byte b) \<subseteq> set hexdigits"
proof -
  have "unat b < 256" using unsigned_less [of b] by simp
  then have "unat b div 16 < length hexdigits" "unat b mod 16 < length hexdigits"
    by (simp_all add: length_hexdigits)
  then show ?thesis
    unfolding hex_byte_def by (simp add: nth_mem)
qed
lemma set_hexlify: "set (hexlify bs) \<subseteq> set hexdigits"
  using set_hex_byte by (auto simp: hexlify_def)
lemma length_le_bytes32: "length (le_bytes32 w) = 4"
  by (simp add: le_bytes32_def)
lemma length_md5_digest: "length (md5_digest m) = 16"
  by (simp add: md5_digest_def length_le_bytes32 split: prod.split)
lemma length_md5_hexdigest: "length (md5_hexdigest m) = 32"
  by (simp add: md5_hexdigest_def length_hexlify length_md5_digest)










lemma str_encode_Inr:
  "(\<exists>bs. str_encode s = Inr bs) = (\<forall>n \<in> set s. encodable n)"
proof (induction s)
  case Nil
  show ?case by simp
next
  case (Cons n ns)
  have "(utf8_codepoint n = None) = (\<not> encodable n)"
    by (auto simp: utf8_codepoint_def encodable_def)
  with Cons show ?case
    by (auto split: option.splits sum.splits)
qed

lemma str_encode_Inl: "str_encode s = Inl e \<Longrightarrow> e = UnicodeEncodeError"
  by (cases e) simp

lemma str_encode_code_points: "str_encode (code_points s) = Inr (utf8_encode s)"
proof (induction s)
  case Nil
  show ?case by (simp add: code_points_def utf8_encode_def)
next
  case (Cons c s)
  obtain n :: nat where n: "of_char c = n" "n < 256"
    by simp
  then have "utf8_codepoint (of_char c) = Some (utf8_char c)"
    by (simp add: utf8_codepoint_def utf8_char_def Let_def)
  with Cons show ?case
    by (simp add: code_points_def utf8_encode_def)
qed

text \<open>
  C10, as the code has it. For every path, classification and clock reading that hold no
  surrogate code point, \<open>_generate_build_hash\<close> returns exactly 16 characters, each a
  lowercase hexadecimal digit: the first 16 characters of the MD5 hex digest of the
  UTF-8 bytes of path, classification and timestamp put together. With a surrogate code
  point in one of them it raises UnicodeEncodeError and returns no identifier.
\<close>

theorem generate_build_hash_shape:
  "((\<forall>n \<in> set (tex_file @ classification @ now). encodable n) \<longrightarrow>
      (\<exists>content h. str_encode (tex_file @ classification @ now) = Inr content \<and>
         generate_build_hash tex_file classification now = Inr h \<and>
         h = take 16 (md5_hexdigest content) \<and>
         length h = 16 \<and> set h \<subseteq> set hexdigits)) \<and>
   (\<not> (\<forall>n \<in> set (tex_file @ classification @ now). encodable n) \<longrightarrow>
      generate_build_hash tex_file classification now = Inl UnicodeEncodeError)"
proof (intro conjI impI)
  assume "\<forall>n \<in> set (tex_file @ classification @ now). encodable n"
  then obtain content where c: "str_encode (tex_file @ classification @ now) = Inr content"
    using str_encode_Inr [of "tex_file @ classification @ now"] by blast
  have "set (take 16 (md5_hexdigest content)) \<subseteq> set hexdigits"
    using set_take_subset set_hexlify unfolding md5_hexdigest_def by fast
  moreover have "length (take 16 (md5_hexdigest content)) = 16"
    by (simp add: length_md5_hexdigest)
  ultimately show "\<exists>content h. str_encode (tex_file @ classification @ now) = Inr content \<and>
         generate_build_hash tex_file classification now = Inr h \<and>
         h = take 16 (md5_hexdigest content) \<and>
         length h = 16 \<and> set h \<subseteq> set hexdigits"
    using c by (simp add: generate_build_hash_def)
next
  assume "\<not> (\<forall>n \<in> set (tex_file @ classification @ now). encodable n)"
  then have "\<not> (\<exists>bs. str_encode (tex_file @ classification @ now) = Inr bs)"
    using str_encode_Inr [of "tex_file @ classification @ now"] by blast
  then obtain e where "str_encode (tex_file @ classification @ now) = Inl e"
    by (cases "str_encode (tex_file @ classification @ now)") auto
  then show "generate_build_hash tex_file classification now = Inl UnicodeEncodeError"
    using str_encode_Inl by (auto simp: generate_build_hash_def)
qed

text \<open>A file name with one byte that is no UTF-8, as \<open>os.fsdecode\<close> gives it.\<close>

theorem generate_build_hash_shape_counterexample:
  "generate_build_hash (code_points ''doc'' @ [0xDC80] @ code_points ''.tex'')
     (code_points ''SECRET'') (code_points ''2025-08-17T10:00:00.123456'')
   = Inl UnicodeEncodeError"
  by (simp add: generate_build_hash_def code_points_def utf8_codepoint_def)

section \<open>Ordering and reading the rows\<close>

lemma set_insert_desc: "set (insert_desc r xs) = insert r (set xs)"
  by (induction xs) auto

lemma sorted_insert_desc:
  "sorted_wrt (\<lambda>a b. timestamp_utc b \<le> timestamp_utc a) xs \<Longrightarrow>
   sorted_wrt (\<lambda>a b. timestamp_utc b \<le> timestamp_utc a) (insert_desc r xs)"
  by (induction xs) (auto simp: set_insert_desc)

lemma distinct_insert_desc:
  "distinct (map f (insert_desc r xs)) = (f r \<notin> f ` set xs \<and> distinct (map f xs))"
  by (induction xs) (auto simp: set_insert_desc)

lemma foldl_insert_desc_set:
  "set (foldl (\<lambda>acc r. insert_desc r acc) acc rs) = set acc \<union> set rs"
  by (induction rs arbitrary: acc) (auto simp: set_insert_desc)

lemma foldl_insert_desc_sorted:
  "sorted_wrt (\<lambda>a b. timestamp_utc b \<le> timestamp_utc a) acc \<Longrightarrow>
   sorted_wrt (\<lambda>a b. timestamp_utc b \<le> timestamp_utc a) (foldl (\<lambda>acc r. insert_desc r acc) acc rs)"
  by (induction rs arbitrary: acc) (auto simp: sorted_insert_desc)

lemma foldl_insert_desc_distinct:
  "distinct (map f (foldl (\<lambda>acc r. insert_desc r acc) acc rs)) = distinct (map f (acc @ rs))"
  by (induction rs arbitrary: acc) (auto simp: distinct_insert_desc set_insert_desc)

lemma mset_insert_desc: "mset (insert_desc r xs) = add_mset r (mset xs)"
  by (induction xs) auto

lemma foldl_insert_desc_mset:
  "mset (foldl (\<lambda>acc r. insert_desc r acc) acc rs) = mset acc + mset rs"
  by (induction rs arbitrary: acc) (auto simp: mset_insert_desc)

lemma mset_order_by: "mset (order_by_timestamp_desc rs) = mset rs"
  by (simp add: order_by_timestamp_desc_def foldl_insert_desc_mset)

lemma set_order_by: "set (order_by_timestamp_desc rs) = set rs"
  by (simp add: order_by_timestamp_desc_def foldl_insert_desc_set)

lemma sorted_order_by:
  "sorted_wrt (\<lambda>a b. timestamp_utc b \<le> timestamp_utc a) (order_by_timestamp_desc rs)"
  by (simp add: order_by_timestamp_desc_def foldl_insert_desc_sorted)

lemma distinct_order_by:
  "distinct (map f (order_by_timestamp_desc rs)) = distinct (map f rs)"
  by (simp add: order_by_timestamp_desc_def foldl_insert_desc_distinct)

lemma fetched_rows_prefix: "prefix (fetched_rows st limit) (order_by_timestamp_desc (rows_of st))"
  by (simp add: fetched_rows_def sql_limit_def take_is_prefix)

lemma sorted_wrt_prefix: "prefix xs ys \<Longrightarrow> sorted_wrt P ys \<Longrightarrow> sorted_wrt P xs"
  by (auto simp: prefix_def sorted_wrt_append)

lemma distinct_map_prefix: "prefix xs ys \<Longrightarrow> distinct (map f ys) \<Longrightarrow> distinct (map f xs)"
  by (auto simp: prefix_def)

lemma list_entry_build_hash: "list_entry L f r = Some s \<Longrightarrow> s_build_hash s = build_hash r"
  by (auto simp: list_entry_def split: option.splits json.splits)

lemma list_entry_readable: "(list_entry L f r = None) = (\<not> readable L f r)"
  by (auto simp: list_entry_def readable_def split: option.splits json.splits)

lemma map_filter_build_hash:
  "map s_build_hash (List.map_filter (list_entry L f) rs) = map build_hash (filter (readable L f) rs)"
proof (induction rs)
  case Nil
  show ?case by (simp add: List.map_filter_simps)
next
  case (Cons r rs)
  show ?case
  proof (cases "list_entry L f r")
    case None
    with Cons show ?thesis
      using list_entry_readable [of L f r] by (simp add: List.map_filter_simps)
  next
    case (Some s)
    with Cons show ?thesis
      using list_entry_readable [of L f r] list_entry_build_hash [OF Some]
      by (simp add: List.map_filter_simps)
  qed
qed

lemma list_builds_fetched:
  "list_builds L st limit = List.map_filter (list_entry L (fernet st)) (fetched_rows st limit)"
  by (simp add: list_builds_def fetched_rows_def rows_of_def List.map_filter_simps sql_limit_def
           order_by_timestamp_desc_def split: option.splits)


lemma first_match_None: "(first_match f xs = None) = (\<forall>x \<in> set xs. f x = None)"
  by (induction xs) (auto split: option.splits)

lemma first_match_Some:
  "first_match f xs = Some m \<Longrightarrow>
   \<exists>ys r zs. xs = ys @ r # zs \<and> f r = Some m \<and> (\<forall>y \<in> set ys. f y = None)"
proof (induction xs)
  case Nil
  then show ?case by simp
next
  case (Cons x xs)
  show ?case
  proof (cases "f x")
    case None
    with Cons.prems have "first_match f xs = Some m" by simp
    from Cons.IH [OF this] obtain ys r zs
      where "xs = ys @ r # zs" "f r = Some m" "\<forall>y \<in> set ys. f y = None" by blast
    with None have "x # xs = (x # ys) @ r # zs \<and> f r = Some m \<and> (\<forall>y \<in> set (x # ys). f y = None)"
      by simp
    then show ?thesis by blast
  next
    case (Some a)
    with Cons.prems have "x # xs = [] @ x # xs \<and> f x = Some m \<and> (\<forall>y \<in> set []. f y = None)"
      by simp
    then show ?thesis by blast
  qed
qed

lemma token_entry_carries: "(token_entry L f token r = None) = (\<not> carries L f token r)"
  by (auto simp: token_entry_def carries_def split: option.splits json.splits)

lemma token_entry_build_hash:
  "token_entry L f token r = Some m \<Longrightarrow>
   m_build_hash m = build_hash r \<and> m_user_fingerprint m = user_fingerprint r"
  by (auto simp: token_entry_def split: option.splits json.splits if_splits)

lemma find_by_recipient_token_rows:
  "find_by_recipient_token L st token =
     first_match (token_entry L (fernet st) token) (order_by_timestamp_desc (rows_of st))"
  by (simp add: find_by_recipient_token_def rows_of_def order_by_timestamp_desc_def
           split: option.splits)

lemma list_entry_fields:
  "list_entry L f r = Some s \<Longrightarrow>
   \<exists>kvs. decrypt_data L f (encrypted_data r) = Some (JDict kvs) \<and>
     s = \<lparr>s_build_hash = build_hash r,
          s_classification = dict_get kvs ''classification'' (JStr ''unknown''),
          s_main_file = dict_get kvs ''main_file'' (JStr ''unknown''),
          s_user_fingerprint = user_fingerprint r,
          s_timestamp_iso = dict_get kvs ''timestamp_iso'' (JStr (timestamp_utc r)),
          s_pdf_size = dict_get kvs ''pdf_size'' (JInt 0)\<rparr>"
  by (auto simp: list_entry_def split: option.splits json.splits)

lemma map_filter_fields:
  "list_all2
     (\<lambda>s r. \<exists>kvs. decrypt_data L f (encrypted_data r) = Some (JDict kvs) \<and>
        s = \<lparr>s_build_hash = build_hash r,
             s_classification = dict_get kvs ''classification'' (JStr ''unknown''),
             s_main_file = dict_get kvs ''main_file'' (JStr ''unknown''),
             s_user_fingerprint = user_fingerprint r,
             s_timestamp_iso = dict_get kvs ''timestamp_iso'' (JStr (timestamp_utc r)),
             s_pdf_size = dict_get kvs ''pdf_size'' (JInt 0)\<rparr>)
     (List.map_filter (list_entry L f) rs) (filter (readable L f) rs)"
proof (induction rs)
  case Nil
  show ?case by (simp add: List.map_filter_simps)
next
  case (Cons r rs)
  show ?case
  proof (cases "list_entry L f r")
    case None
    with Cons show ?thesis
      using list_entry_readable [of L f r] by (simp add: List.map_filter_simps)
  next
    case (Some s)
    with Cons show ?thesis
      using list_entry_readable [of L f r] list_entry_fields [OF Some]
      by (simp add: List.map_filter_simps)
  qed
qed

lemma token_entry_fields:
  "token_entry L f token r = Some m \<Longrightarrow>
   \<exists>kvs. decrypt_data L f (encrypted_data r) = Some (JDict kvs) \<and>
     dict_get kvs ''recipient_token'' JNull = JStr token \<and>
     m = \<lparr>m_build_hash = build_hash r,
          m_classification = dict_get kvs ''classification'' (JStr ''unknown''),
          m_timestamp_iso = dict_get kvs ''timestamp_iso'' (JStr (timestamp_utc r)),
          m_user_fingerprint = user_fingerprint r,
          m_main_file = dict_get kvs ''main_file'' JNull,
          m_pdf_path = dict_get kvs ''pdf_path'' JNull\<rparr>"
  by (auto simp: token_entry_def split: option.splits json.splits if_splits)

lemma carries_iff:
  "carries L f token r =
     (\<exists>kvs. decrypt_data L f (encrypted_data r) = Some (JDict kvs) \<and>
            dict_get kvs ''recipient_token'' JNull = JStr token)"
  by (auto simp: carries_def split: option.splits json.splits)

lemma readable_iff:
  "readable L f r = (\<exists>kvs. decrypt_data L f (encrypted_data r) = Some (JDict kvs))"
  by (auto simp: readable_def split: option.splits json.splits)

lemma fetched_rows_out_of_range:
  "limit < - (2 ^ 63) \<or> 2 ^ 63 \<le> limit \<Longrightarrow> fetched_rows st limit = []"
  by (auto simp: fetched_rows_def sql_limit_def)

text \<open>
  C6. For every token, \<open>find_by_recipient_token\<close> returns \<open>None\<close> exactly when no row of
  the table decrypts to metadata whose \<open>recipient_token\<close> is the token; otherwise it
  returns the summary of such a row (its build hash and fingerprint, and the
  classification, timestamp, main file and PDF path of its decrypted metadata), and no
  row that carries the token has a later storage timestamp.
\<close>

theorem find_by_recipient_token_most_recent:
  "(find_by_recipient_token L st token = None) =
     (\<not> (\<exists>r \<in> set (rows_of st). \<exists>kvs.
            decrypt_data L (fernet st) (encrypted_data r) = Some (JDict kvs) \<and>
            dict_get kvs ''recipient_token'' JNull = JStr token)) \<and>
   (\<forall>m. find_by_recipient_token L st token = Some m \<longrightarrow>
      (\<exists>r \<in> set (rows_of st). \<exists>kvs.
         decrypt_data L (fernet st) (encrypted_data r) = Some (JDict kvs) \<and>
         dict_get kvs ''recipient_token'' JNull = JStr token \<and>
         m = \<lparr>m_build_hash = build_hash r,
              m_classification = dict_get kvs ''classification'' (JStr ''unknown''),
              m_timestamp_iso = dict_get kvs ''timestamp_iso'' (JStr (timestamp_utc r)),
              m_user_fingerprint = user_fingerprint r,
              m_main_file = dict_get kvs ''main_file'' JNull,
              m_pdf_path = dict_get kvs ''pdf_path'' JNull\<rparr> \<and>
         (\<forall>r' \<in> set (rows_of st).
            (\<exists>kvs'. decrypt_data L (fernet st) (encrypted_data r') = Some (JDict kvs') \<and>
                    dict_get kvs' ''recipient_token'' JNull = JStr token)
            \<longrightarrow> timestamp_utc r' \<le> timestamp_utc r)))"
proof (intro conjI allI impI)
  show "(find_by_recipient_token L st token = None) =
     (\<not> (\<exists>r \<in> set (rows_of st). \<exists>kvs.
            decrypt_data L (fernet st) (encrypted_data r) = Some (JDict kvs) \<and>
            dict_get kvs ''recipient_token'' JNull = JStr token))"
    by (simp add: find_by_recipient_token_rows first_match_None set_order_by token_entry_carries
          carries_iff)
next
  fix m
  assume "find_by_recipient_token L st token = Some m"
  then have "first_match (token_entry L (fernet st) token) (order_by_timestamp_desc (rows_of st)) = Some m"
    by (simp add: find_by_recipient_token_rows)
  from first_match_Some [OF this] obtain ys r zs where
    split: "order_by_timestamp_desc (rows_of st) = ys @ r # zs"
    and hit: "token_entry L (fernet st) token r = Some m"
    and miss: "\<forall>y \<in> set ys. token_entry L (fernet st) token y = None"
    by blast
  have srt: "sorted_wrt (\<lambda>a b. timestamp_utc b \<le> timestamp_utc a) (ys @ r # zs)"
    using sorted_order_by [of "rows_of st"] by (simp add: split)
  have mem: "set (rows_of st) = set ys \<union> {r} \<union> set zs"
    using set_order_by [of "rows_of st"] by (simp add: split)
  have newest: "\<forall>r' \<in> set (rows_of st).
            (\<exists>kvs'. decrypt_data L (fernet st) (encrypted_data r') = Some (JDict kvs') \<and>
                    dict_get kvs' ''recipient_token'' JNull = JStr token)
            \<longrightarrow> timestamp_utc r' \<le> timestamp_utc r"
  proof (intro ballI impI)
    fix r'
    assume r': "r' \<in> set (rows_of st)"
      and c': "\<exists>kvs'. decrypt_data L (fernet st) (encrypted_data r') = Some (JDict kvs') \<and>
                    dict_get kvs' ''recipient_token'' JNull = JStr token"
    from c' have "token_entry L (fernet st) token r' \<noteq> None"
      using token_entry_carries [of L "fernet st" token r'] by (simp add: carries_iff)
    with miss have "r' \<notin> set ys" by auto
    with r' mem have "r' = r \<or> r' \<in> set zs" by blast
    then show "timestamp_utc r' \<le> timestamp_utc r"
      using srt by (auto simp: sorted_wrt_append)
  qed
  from token_entry_fields [OF hit] obtain kvs where
    "decrypt_data L (fernet st) (encrypted_data r) = Some (JDict kvs)"
    "dict_get kvs ''recipient_token'' JNull = JStr token"
    "m = \<lparr>m_build_hash = build_hash r,
              m_classification = dict_get kvs ''classification'' (JStr ''unknown''),
              m_timestamp_iso = dict_get kvs ''timestamp_iso'' (JStr (timestamp_utc r)),
              m_user_fingerprint = user_fingerprint r,
              m_main_file = dict_get kvs ''main_file'' JNull,
              m_pdf_path = dict_get kvs ''pdf_path'' JNull\<rparr>"
    by blast
  moreover have "r \<in> set (rows_of st)" using mem by simp
  ultimately show "\<exists>r \<in> set (rows_of st). \<exists>kvs.
         decrypt_data L (fernet st) (encrypted_data r) = Some (JDict kvs) \<and>
         dict_get kvs ''recipient_token'' JNull = JStr token \<and>
         m = \<lparr>m_build_hash = build_hash r,
              m_classification = dict_get kvs ''classification'' (JStr ''unknown''),
              m_timestamp_iso = dict_get kvs ''timestamp_iso'' (JStr (timestamp_utc r)),
              m_user_fingerprint = user_fingerprint r,
              m_main_file = dict_get kvs ''main_file'' JNull,
              m_pdf_path = dict_get kvs ''pdf_path'' JNull\<rparr> \<and>
         (\<forall>r' \<in> set (rows_of st).
            (\<exists>kvs'. decrypt_data L (fernet st) (encrypted_data r') = Some (JDict kvs') \<and>
                    dict_get kvs' ''recipient_token'' JNull = JStr token)
            \<longrightarrow> timestamp_utc r' \<le> timestamp_utc r)"
    using newest by blast
qed

text \<open>
  C5, as the code has it. For every state of the database and every limit,
  \<open>list_builds\<close> returns without raising (it is a total function: every exception of
  the source is a branch). For a limit that fits SQLite's 64-bit integer the rows fetched
  are the first \<open>limit\<close> rows (all of them for a negative limit) of the table's rows
  rearranged newest first by \<open>timestamp_utc\<close>, and the result is the summaries of the
  fetched rows that decrypt, in that order, each with the fields of its row and of its
  decrypted metadata: a fetched row that does not decrypt is left out and the other
  fetched rows stay. For a limit outside that range the query raises and the result is
  empty.
\<close>

theorem list_builds_newest_first:
  "list_all2
     (\<lambda>s r. \<exists>kvs. decrypt_data L (fernet st) (encrypted_data r) = Some (JDict kvs) \<and>
        s = \<lparr>s_build_hash = build_hash r,
             s_classification = dict_get kvs ''classification'' (JStr ''unknown''),
             s_main_file = dict_get kvs ''main_file'' (JStr ''unknown''),
             s_user_fingerprint = user_fingerprint r,
             s_timestamp_iso = dict_get kvs ''timestamp_iso'' (JStr (timestamp_utc r)),
             s_pdf_size = dict_get kvs ''pdf_size'' (JInt 0)\<rparr>)
     (list_builds L st limit)
     (filter (\<lambda>r. \<exists>kvs. decrypt_data L (fernet st) (encrypted_data r) = Some (JDict kvs))
        (fetched_rows st limit)) \<and>
   map s_build_hash (list_builds L st limit) =
     map build_hash (filter (readable L (fernet st)) (fetched_rows st limit)) \<and>
   sorted_wrt (\<lambda>a b. timestamp_utc b \<le> timestamp_utc a) (fetched_rows st limit) \<and>
   mset (order_by_timestamp_desc (rows_of st)) = mset (rows_of st) \<and>
   (- (2 ^ 63) \<le> limit \<and> limit < 0 \<longrightarrow>
      fetched_rows st limit = order_by_timestamp_desc (rows_of st)) \<and>
   (0 \<le> limit \<and> limit < 2 ^ 63 \<longrightarrow>
      fetched_rows st limit = take (nat limit) (order_by_timestamp_desc (rows_of st))) \<and>
   (limit < - (2 ^ 63) \<or> 2 ^ 63 \<le> limit \<longrightarrow>
      fetched_rows st limit = [] \<and> list_builds L st limit = [])"
proof -
  have "sorted_wrt (\<lambda>a b. timestamp_utc b \<le> timestamp_utc a) (fetched_rows st limit)"
    using sorted_wrt_prefix [OF fetched_rows_prefix sorted_order_by] .
  moreover have "- (2 ^ 63) \<le> limit \<and> limit < 0 \<longrightarrow>
      fetched_rows st limit = order_by_timestamp_desc (rows_of st)"
    by (simp add: fetched_rows_def sql_limit_def)
  moreover have "0 \<le> limit \<and> limit < 2 ^ 63 \<longrightarrow>
      fetched_rows st limit = take (nat limit) (order_by_timestamp_desc (rows_of st))"
    by (simp add: fetched_rows_def sql_limit_def)
  moreover have "limit < - (2 ^ 63) \<or> 2 ^ 63 \<le> limit \<longrightarrow>
      fetched_rows st limit = [] \<and> list_builds L st limit = []"
    using fetched_rows_out_of_range [of limit st]
    by (auto simp: list_builds_fetched List.map_filter_simps)
  moreover have "(\<lambda>r. \<exists>kvs. decrypt_data L (fernet st) (encrypted_data r) = Some (JDict kvs))
      = readable L (fernet st)"
    by (rule ext) (simp add: readable_iff)
  ultimately show ?thesis
    using list_builds_fetched [of L st limit]
      mset_order_by [of "rows_of st"]
      map_filter_build_hash [of L "fernet st" "fetched_rows st limit"]
      map_filter_fields [of L "fernet st" "fetched_rows st limit"]
    by simp
qed

section \<open>Writing and verifying a row\<close>

lemma find_after_replace:
  "P x \<Longrightarrow> find P (filter (\<lambda>y. \<not> P y) xs @ [x]) = Some x"
  by (induction xs) auto

lemma log_build_Some:
  assumes "log_build L E st h gi gt c mf pp pw rt = (Some bid, st')"
  shows "\<exists>key fp t. fernet st = Some key \<and> get_user_fingerprint E = Some fp \<and> db st = Some t \<and>
           bid = next_rowid t \<and>
           st' = st\<lparr>db := Some \<lparr>rows = filter (\<lambda>x. build_hash x \<noteq> h) (rows t) @
               [\<lparr>row_id = next_rowid t, build_hash = h,
                 encrypted_data = encrypt_data L E key (build_data_of E h gi gt c mf pp pw rt),
                 user_fingerprint = fp,
                 user_signature = sha256_hexdigest (utf8_encode
                    (h @ encrypt_data L E key (build_data_of E h gi gt c mf pp pw rt))),
                 timestamp_utc = utcnow_isoformat E\<rparr>],
             seq = next_rowid t\<rparr>\<rparr>"
  using assms
  by (auto simp: log_build_def insert_or_replace_def Let_def split: option.splits)

lemma log_build_None:
  "log_build L E st h gi gt c mf pp pw rt = (None, st') \<Longrightarrow> st' = st"
  by (auto simp: log_build_def insert_or_replace_def Let_def split: option.splits)

lemma log_build_lookup:
  assumes "log_build L E st h gi gt c mf pp pw rt = (Some bid, st')"
  shows "\<exists>key fp r. fernet st = Some key \<and> fernet st' = Some key \<and>
           get_user_fingerprint E = Some fp \<and> lookup st' h = Some r \<and>
           row_id r = bid \<and> build_hash r = h \<and>
           encrypted_data r = encrypt_data L E key (build_data_of E h gi gt c mf pp pw rt) \<and>
           user_fingerprint r = fp \<and>
           user_signature r = sha256_hexdigest (utf8_encode (h @ encrypted_data r)) \<and>
           timestamp_utc r = utcnow_isoformat E"
proof -
  from log_build_Some [OF assms] obtain key fp t where
    k: "fernet st = Some key" and f: "get_user_fingerprint E = Some fp" and
    t: "db st = Some t" and b: "bid = next_rowid t" and
    s: "st' = st\<lparr>db := Some \<lparr>rows = filter (\<lambda>x. build_hash x \<noteq> h) (rows t) @
               [\<lparr>row_id = next_rowid t, build_hash = h,
                 encrypted_data = encrypt_data L E key (build_data_of E h gi gt c mf pp pw rt),
                 user_fingerprint = fp,
                 user_signature = sha256_hexdigest (utf8_encode
                    (h @ encrypt_data L E key (build_data_of E h gi gt c mf pp pw rt))),
                 timestamp_utc = utcnow_isoformat E\<rparr>],
             seq = next_rowid t\<rparr>\<rparr>"
    by blast
  let ?r = "\<lparr>row_id = next_rowid t, build_hash = h,
                 encrypted_data = encrypt_data L E key (build_data_of E h gi gt c mf pp pw rt),
                 user_fingerprint = fp,
                 user_signature = sha256_hexdigest (utf8_encode
                    (h @ encrypt_data L E key (build_data_of E h gi gt c mf pp pw rt))),
                 timestamp_utc = utcnow_isoformat E\<rparr>"
  have "find (\<lambda>r. build_hash r = h) (filter (\<lambda>y. \<not> build_hash y = h) (rows t) @ [?r]) = Some ?r"
    by (rule find_after_replace) simp
  then have "lookup st' h = Some ?r"
    by (simp add: s lookup_def select_build_def)
  then show ?thesis using k f b s by simp
qed

lemma verify_build_lookup:
  "verify_build L st h =
     (case lookup st h of
        None \<Rightarrow> False
      | Some r \<Rightarrow>
          sha256_hexdigest (utf8_encode (h @ encrypted_data r)) = user_signature r \<and>
          readable L (fernet st) r)"
  by (auto simp: verify_build_def lookup_def readable_def Let_def
           split: option.splits json.splits)



lemma fernet_update: "fernet (update_encrypted_data st h d) = fernet st"
  by (simp add: update_encrypted_data_def split: option.splits)




subsection \<open>More stored texts than digests\<close>












text \<open>
  C2. The signature that \<open>log_build\<close> stores is the SHA-256 hex digest of the stored
  \<open>build_hash\<close> followed by the stored \<open>encrypted_data\<close>; \<open>verify_build\<close> accepts only a
  row whose signature is that digest of its own columns; and its verdict is the same in
  two ledgers that hold the same key and agree on these two columns of the row.
\<close>

theorem signature_of_persisted_columns:
  "(log_build L E st h gi gt c mf pp pw rt = (Some bid, st') \<longrightarrow>
      (\<exists>r. lookup st' h = Some r \<and> build_hash r = h \<and>
           user_signature r = sha256_hexdigest (utf8_encode (build_hash r @ encrypted_data r)))) \<and>
   (verify_build L st1 h \<longrightarrow>
      (\<exists>r. lookup st1 h = Some r \<and>
           user_signature r = sha256_hexdigest (utf8_encode (h @ encrypted_data r)))) \<and>
   (fernet st1 = fernet st2 \<and>
    map_option (\<lambda>r. (encrypted_data r, user_signature r)) (lookup st1 h) =
    map_option (\<lambda>r. (encrypted_data r, user_signature r)) (lookup st2 h)
    \<longrightarrow> verify_build L st1 h = verify_build L st2 h)"
proof (intro conjI impI)
  assume "log_build L E st h gi gt c mf pp pw rt = (Some bid, st')"
  from log_build_lookup [OF this]
  show "\<exists>r. lookup st' h = Some r \<and> build_hash r = h \<and>
           user_signature r = sha256_hexdigest (utf8_encode (build_hash r @ encrypted_data r))"
    by auto
next
  assume "verify_build L st1 h"
  then show "\<exists>r. lookup st1 h = Some r \<and>
           user_signature r = sha256_hexdigest (utf8_encode (h @ encrypted_data r))"
    by (auto simp: verify_build_lookup split: option.splits)
next
  assume "fernet st1 = fernet st2 \<and>
    map_option (\<lambda>r. (encrypted_data r, user_signature r)) (lookup st1 h) =
    map_option (\<lambda>r. (encrypted_data r, user_signature r)) (lookup st2 h)"
  then show "verify_build L st1 h = verify_build L st2 h"
    by (cases "lookup st1 h"; cases "lookup st2 h")
       (auto simp: verify_build_lookup readable_def)
qed

text \<open>
  C3, as the code has it. The signature does not depend on the owner fingerprint: two rows
  that \<open>log_build\<close> wrote under the same build hash with the same \<open>encrypted_data\<close> carry
  the same signature, the digest of build hash and ciphertext, whatever the fingerprints
  of the two writers.
\<close>

theorem signature_ignores_fingerprint:
  assumes "log_build L E1 st1 h gi1 gt1 c1 mf1 pp1 pw1 rt1 = (Some bid1, st1')"
    and "log_build L E2 st2 h gi2 gt2 c2 mf2 pp2 pw2 rt2 = (Some bid2, st2')"
    and "lookup st1' h = Some r1" and "lookup st2' h = Some r2"
    and "encrypted_data r1 = encrypted_data r2"
  shows "user_signature r1 = user_signature r2 \<and>
         user_signature r1 = sha256_hexdigest (utf8_encode (h @ encrypted_data r1)) \<and>
         get_user_fingerprint E1 = Some (user_fingerprint r1) \<and>
         get_user_fingerprint E2 = Some (user_fingerprint r2)"
  using log_build_lookup [OF assms(1)] log_build_lookup [OF assms(2)] assms(3-5)
  by auto

section \<open>Uniqueness, opening, the password hint and the token run\<close>

lemma rows_of_log_build:
  assumes "log_build L E st h gi gt c mf pp pw rt = (Some bid, st')"
  shows "\<exists>r. rows_of st' = filter (\<lambda>x. build_hash x \<noteq> h) (rows_of st) @ [r] \<and>
             build_hash r = h \<and> row_id r = bid \<and> timestamp_utc r = utcnow_isoformat E"
  using log_build_Some [OF assms] by (auto simp: rows_of_def)

lemma log_build_db_unique:
  assumes "db_unique st"
  shows "db_unique (snd (log_build L E st h gi gt c mf pp pw rt))"
proof (cases "log_build L E st h gi gt c mf pp pw rt")
  case (Pair res st')
  show ?thesis
  proof (cases res)
    case None
    with Pair assms show ?thesis using log_build_None [of L E st h gi gt c mf pp pw rt st'] by simp
  next
    case (Some bid)
    with Pair have "log_build L E st h gi gt c mf pp pw rt = (Some bid, st')" by simp
    from rows_of_log_build [OF this] obtain r where
      "rows_of st' = filter (\<lambda>x. build_hash x \<noteq> h) (rows_of st) @ [r]" "build_hash r = h"
      by blast
    with assms Pair show ?thesis
      by (auto simp: db_unique_def distinct_map_filter)
  qed
qed

lemma log_builds_db_unique: "db_unique st \<Longrightarrow> db_unique (log_builds L st calls)"
proof (induction calls arbitrary: st)
  case Nil
  then show ?case by simp
next
  case (Cons call calls)
  obtain E h gi gt c mf pp pw rt where call: "call = (E, h, gi, gt, c, mf, pp, pw, rt)"
    by (cases call) auto
  show ?case
    unfolding call log_builds.simps
    by (rule Cons.IH) (rule log_build_db_unique [OF Cons.prems])
qed

lemma list_builds_distinct:
  assumes "db_unique st"
  shows "distinct (map s_build_hash (list_builds L st limit))"
proof -
  have "distinct (map build_hash (order_by_timestamp_desc (rows_of st)))"
    using assms by (simp add: distinct_order_by db_unique_def)
  then have "distinct (map build_hash (fetched_rows st limit))"
    using distinct_map_prefix [OF fetched_rows_prefix] by blast
  then have "distinct (map build_hash (filter (readable L (fernet st)) (fetched_rows st limit)))"
    by (rule distinct_map_filter)
  then show ?thesis
    by (simp add: list_builds_fetched map_filter_build_hash)
qed

text \<open>
  C4. From a table that holds one row per build hash (the empty table of a new ledger
  does), every sequence of \<open>log_build\<close> calls leaves at most one row per build hash, and
  \<open>list_builds\<close> never returns two entries with the same build hash; a \<open>log_build\<close> that
  succeeds under a build hash leaves exactly one row for it, the new one, and the rows of
  the other build hashes as they were.
\<close>

theorem log_build_one_row_per_build_hash:
  assumes "db_unique st"
  shows "db_unique (log_builds L st calls) \<and>
         distinct (map build_hash (rows_of (log_builds L st calls))) \<and>
         distinct (map s_build_hash (list_builds L (log_builds L st calls) limit)) \<and>
         (log_build L E st h gi gt c mf pp pw rt = (Some bid, st') \<longrightarrow>
            (\<exists>r. filter (\<lambda>x. build_hash x = h) (rows_of st') = [r] \<and>
                 row_id r = bid \<and> timestamp_utc r = utcnow_isoformat E) \<and>
            filter (\<lambda>x. build_hash x \<noteq> h) (rows_of st') =
              filter (\<lambda>x. build_hash x \<noteq> h) (rows_of st))"
proof -
  have u: "db_unique (log_builds L st calls)"
    by (rule log_builds_db_unique [OF assms])
  have "log_build L E st h gi gt c mf pp pw rt = (Some bid, st') \<Longrightarrow>
            (\<exists>r. filter (\<lambda>x. build_hash x = h) (rows_of st') = [r] \<and>
                 row_id r = bid \<and> timestamp_utc r = utcnow_isoformat E) \<and>
            filter (\<lambda>x. build_hash x \<noteq> h) (rows_of st') =
              filter (\<lambda>x. build_hash x \<noteq> h) (rows_of st)"
  proof -
    assume "log_build L E st h gi gt c mf pp pw rt = (Some bid, st')"
    from rows_of_log_build [OF this] obtain r where
      r: "rows_of st' = filter (\<lambda>x. build_hash x \<noteq> h) (rows_of st) @ [r]"
        "build_hash r = h" "row_id r = bid" "timestamp_utc r = utcnow_isoformat E"
      by blast
    have "filter (\<lambda>x. build_hash x = h) (filter (\<lambda>x. build_hash x \<noteq> h) (rows_of st)) = []"
      by (simp add: filter_empty_conv)
    with r show ?thesis by simp
  qed
  with u list_builds_distinct [OF u] show ?thesis
    by (simp add: db_unique_def)
qed

lemma BuildLogger_cases:
  "BuildLogger L fresh_key io kf d =
     (if \<not> open_key_ok io then \<lparr>key_file = kf, db = d, fernet = None\<rparr>
      else
        let db_key = (case kf of None \<Rightarrow> fresh_key | Some k \<Rightarrow> k)
        in if \<not> fernet_key_ok L db_key then \<lparr>key_file = Some db_key, db = d, fernet = None\<rparr>
           else if \<not> connect_ok io then \<lparr>key_file = Some db_key, db = d, fernet = Some db_key\<rparr>
           else \<lparr>key_file = Some db_key,
                 db = Some (case d of None \<Rightarrow> empty_table | Some t \<Rightarrow> t),
                 fernet = Some db_key\<rparr>)"
  by (simp add: BuildLogger_def init_encrypted_database_def Let_def split: option.splits)

text \<open>
  C8, as the code has it. Opening a ledger whose table exists never fails on the key.
  When the key file and the database can be opened: with no key file a fresh key is
  written and used, with a key file its content is used as it is (when Fernet accepts
  the key in either case); no check relates the key to the rows. When the key file cannot
  be opened, nothing is written and no key is set. In every case the rows are left as they
  were.
\<close>

theorem open_ledger_takes_any_key:
  "(open_key_ok io \<and> connect_ok io \<and> fernet_key_ok L fresh_key \<longrightarrow>
      BuildLogger L fresh_key io None (Some t) =
        \<lparr>key_file = Some fresh_key, db = Some t, fernet = Some fresh_key\<rparr>) \<and>
   (open_key_ok io \<and> connect_ok io \<and> fernet_key_ok L k \<longrightarrow>
      BuildLogger L fresh_key io (Some k) (Some t) =
        \<lparr>key_file = Some k, db = Some t, fernet = Some k\<rparr>) \<and>
   (\<not> open_key_ok io \<longrightarrow>
      BuildLogger L fresh_key io kf (Some t) = \<lparr>key_file = kf, db = Some t, fernet = None\<rparr>) \<and>
   rows_of (BuildLogger L fresh_key io kf (Some t)) = rows t"
  by (simp add: BuildLogger_cases rows_of_def Let_def split: option.splits)

lemma hint_long:
  "8 < length p \<Longrightarrow> pdf_password_hint (Some p) = JStr (take 8 p @ ''...'')"
  by (auto simp: pdf_password_hint_def)

lemma hint_take:
  "p \<noteq> [] \<Longrightarrow> p' \<noteq> [] \<Longrightarrow> take 8 p = take 8 p' \<Longrightarrow>
   pdf_password_hint (Some p) = pdf_password_hint (Some p')"
  by (simp add: pdf_password_hint_def)

text \<open>
  The password enters the stored metadata through its first eight characters only; a
  password of more than eight characters is stored as those eight and three dots, and
  another password gives the same metadata.
\<close>

lemma password_hint_first_eight:
  "(p \<noteq> [] \<and> p' \<noteq> [] \<and> take 8 p = take 8 p' \<longrightarrow>
      build_data_of E h gi gt c mf pp (Some p) rt = build_data_of E h gi gt c mf pp (Some p') rt) \<and>
   (8 < length p \<longrightarrow>
      py_get (build_data_of E h gi gt c mf pp (Some p) rt) ''pdf_password_hint'' JNull
        = Some (JStr (take 8 p @ ''...'')) \<and>
      (\<exists>p'. p' \<noteq> p \<and>
         build_data_of E h gi gt c mf pp (Some p') rt = build_data_of E h gi gt c mf pp (Some p) rt))"
proof (intro conjI impI)
  assume "p \<noteq> [] \<and> p' \<noteq> [] \<and> take 8 p = take 8 p'"
  then show "build_data_of E h gi gt c mf pp (Some p) rt = build_data_of E h gi gt c mf pp (Some p') rt"
    using hint_take [of p p'] by (simp add: build_data_of_def)
next
  assume "8 < length p"
  then show "py_get (build_data_of E h gi gt c mf pp (Some p) rt) ''pdf_password_hint'' JNull
        = Some (JStr (take 8 p @ ''...''))"
    by (simp add: build_data_of_def dict_get_def hint_long)
next
  assume l: "8 < length p"
  then have "p @ ''x'' \<noteq> p" "p \<noteq> []" "p @ ''x'' \<noteq> []" "take 8 (p @ ''x'') = take 8 p"
    by auto
  then have "build_data_of E h gi gt c mf pp (Some (p @ ''x'')) rt = build_data_of E h gi gt c mf pp (Some p) rt"
    using hint_take [of "p @ ''x''" p] by (simp add: build_data_of_def)
  then show "\<exists>p'. p' \<noteq> p \<and>
         build_data_of E h gi gt c mf pp (Some p') rt = build_data_of E h gi gt c mf pp (Some p) rt"
    using \<open>p @ ''x'' \<noteq> p\<close> by blast
qed

text \<open>
  C7. The claim holds for passwords of more than eight characters (above). For a shorter
  one the code stores the whole password in the hint: the password \<open>hunter2\<close> is stored
  as \<open>hunter2...\<close>.
\<close>

theorem password_hint_short_password:
  "py_get (build_data_of (demo_env ''fp01'' ''2025-08-17T10:00:00'') ''B1'' ''gi'' ''gt'' ''SECRET''
      ''doc.tex'' None (Some ''hunter2'') None) ''pdf_password_hint'' JNull
     = Some (JStr (''hunter2'' @ ''...''))"
  by (simp add: build_data_of_def dict_get_def pdf_password_hint_def)

text \<open>
  C9, as the code has it. With the token set, the invisible text run is the literal
  prefix \<open>TNC_TOKEN:\<close>, then a tie \<open>~\<close>, then the token; the run is the argument of
  \<open>\raisebox\<close> on the line of the style.
\<close>

theorem invisible_token_run_text:
  "emitted_run token = ''TNC_TOKEN:'' @ ''~'' @ token \<and>
   prefix ''TNC_TOKEN:'' (emitted_run token) \<and>
   invisible_token_line =
     bslash # ''hspace{1pt}'' @ bslash # ''raisebox{1pt}{'' @ invisible_token_run @ ''}% tiny, off-grid''"
  by (simp add: emitted_run_def invisible_token_run_def invisible_token_line_def token_macro_def
        bslash_def)

text \<open>The run for the token \<open>alice\<close> is not \<open>TNC_TOKEN:alice\<close>: the tie stands in between.\<close>

theorem invisible_token_run_counterexample:
  "emitted_run ''alice'' = ''TNC_TOKEN:~alice'' \<and> emitted_run ''alice'' \<noteq> ''TNC_TOKEN:'' @ ''alice''"
  by (simp add: emitted_run_def invisible_token_run_def token_macro_def bslash_def)

section \<open>The small instance evaluated\<close>

lemma bytes_str_str_bytes: "bytes_str (str_bytes s) = s"
proof -
  have "char_of (unat (of_nat (of_char c) :: byte)) = c" for c :: char
    by (simp add: unat_of_nat)
  then show ?thesis
    by (simp add: bytes_str_def str_bytes_def comp_def)
qed

lemma demo_ledger0_eq:
  "demo_ledger0 = \<lparr>key_file = Some demo_key, db = Some empty_table, fernet = Some demo_key\<rparr>"
  by (simp add: demo_ledger0_def BuildLogger_def init_encrypted_database_def io_ok_def
        demo_libs_def demo_key_def str_bytes_def)

lemma str_bytes_append: "str_bytes (a @ b) = str_bytes a @ str_bytes b"
  by (simp add: str_bytes_def)

lemma utf8_encode_B1: "utf8_encode ''B1'' = str_bytes ''B1''"
  by (simp add: utf8_encode_def utf8_char_def str_bytes_def)

lemma utf8_encode_B2: "utf8_encode ''B2'' = str_bytes ''B2''"
  by (simp add: utf8_encode_def utf8_char_def str_bytes_def)

lemma demo_encrypt_B1:
  "encrypt_data demo_libs E demo_key demo_B1 = ''K1B1''"
proof -
  have "encrypt_data demo_libs E demo_key demo_B1 = bytes_str (demo_key @ utf8_encode ''B1'')"
    by (simp add: encrypt_data_def demo_libs_def demo_B1_def build_data_of_def dict_get_def)
  also have "\<dots> = bytes_str (str_bytes (''K1'' @ ''B1''))"
    by (simp only: utf8_encode_B1 demo_key_def str_bytes_append)
  finally show ?thesis by (simp only: bytes_str_str_bytes append.simps)
qed

lemma demo_encrypt_B2:
  "encrypt_data demo_libs E demo_key demo_B2 = ''K1B2''"
proof -
  have "encrypt_data demo_libs E demo_key demo_B2 = bytes_str (demo_key @ utf8_encode ''B2'')"
    by (simp add: encrypt_data_def demo_libs_def demo_B2_def build_data_of_def dict_get_def)
  also have "\<dots> = bytes_str (str_bytes (''K1'' @ ''B2''))"
    by (simp only: utf8_encode_B2 demo_key_def str_bytes_append)
  finally show ?thesis by (simp only: bytes_str_str_bytes append.simps)
qed

lemma demo_decrypt_B1: "decrypt_data demo_libs (Some demo_key) ''K1B1'' = Some demo_B1"
  by (simp add: decrypt_data_def demo_libs_def demo_key_def str_bytes_def)

lemma demo_decrypt_B2: "decrypt_data demo_libs (Some demo_key) ''K1B2'' = Some demo_B2"
  by (simp add: decrypt_data_def demo_libs_def demo_key_def str_bytes_def)

lemma demo_rows:
  "demo_ledger2 =
     \<lparr>key_file = Some demo_key,
      db = Some \<lparr>rows =
        [\<lparr>row_id = 1, build_hash = ''B1'', encrypted_data = ''K1B1'', user_fingerprint = ''fp01'',
          user_signature = sha256_hexdigest (utf8_encode ''B1K1B1''),
          timestamp_utc = ''2025-08-17T10:00:00''\<rparr>,
         \<lparr>row_id = 2, build_hash = ''B2'', encrypted_data = ''K1B2'', user_fingerprint = ''fp01'',
          user_signature = sha256_hexdigest (utf8_encode ''B2K1B2''),
          timestamp_utc = ''2025-08-17T11:00:00''\<rparr>], seq = 2\<rparr>,
      fernet = Some demo_key\<rparr>"
  using demo_encrypt_B1 demo_encrypt_B2
  by (simp add: demo_ledger2_def demo_call1_def demo_call2_def demo_ledger0_eq log_build_def
        demo_B1_def demo_B2_def
        insert_or_replace_def next_rowid_def empty_table_def demo_env_def Let_def)

lemma demo_rows_of:
  "rows_of demo_ledger2 =
        [\<lparr>row_id = 1, build_hash = ''B1'', encrypted_data = ''K1B1'', user_fingerprint = ''fp01'',
          user_signature = sha256_hexdigest (utf8_encode ''B1K1B1''),
          timestamp_utc = ''2025-08-17T10:00:00''\<rparr>,
         \<lparr>row_id = 2, build_hash = ''B2'', encrypted_data = ''K1B2'', user_fingerprint = ''fp01'',
          user_signature = sha256_hexdigest (utf8_encode ''B2K1B2''),
          timestamp_utc = ''2025-08-17T11:00:00''\<rparr>]"
  by (simp add: demo_rows rows_of_def)

lemma demo_fernet: "fernet demo_ledger2 = Some demo_key"
  by (simp add: demo_rows)

lemma demo_carries:
  "carries demo_libs (Some demo_key) token r =
     (encrypted_data r = ''K1B1'' \<and> token = ''alice'' \<or> encrypted_data r = ''K1B2'' \<and> token = ''bob'')"
  if "encrypted_data r = ''K1B1'' \<or> encrypted_data r = ''K1B2''"
  using that demo_decrypt_B1 demo_decrypt_B2
  by (auto simp: carries_def demo_B1_def demo_B2_def build_data_of_def dict_get_def opt_str_def)

theorem find_by_recipient_token_witness:
  "find_by_recipient_token demo_libs demo_ledger2 ''alice'' =
     Some \<lparr>m_build_hash = ''B1'', m_classification = JStr ''SECRET'',
           m_timestamp_iso = JStr ''2025-08-17T10:00:00'', m_user_fingerprint = ''fp01'',
           m_main_file = JStr ''doc.tex'', m_pdf_path = JNull\<rparr> \<and>
   find_by_recipient_token demo_libs demo_ledger2 ''carol'' = None"
proof -
  note inst = find_by_recipient_token_most_recent [of demo_libs demo_ledger2]
  note ev = demo_decrypt_B1 demo_decrypt_B2 demo_B1_def demo_B2_def build_data_of_def
    dict_get_def opt_str_def demo_env_def
  have none: "find_by_recipient_token demo_libs demo_ledger2 ''carol'' = None"
    using inst [of "''carol''"] by (simp add: demo_rows_of demo_fernet ev)
  have "find_by_recipient_token demo_libs demo_ledger2 ''alice'' \<noteq> None"
    using inst [of "''alice''"] by (simp add: demo_rows_of demo_fernet ev)
  then obtain m where m: "find_by_recipient_token demo_libs demo_ledger2 ''alice'' = Some m"
    by blast
  with inst [of "''alice''"] have
    "m = \<lparr>m_build_hash = ''B1'', m_classification = JStr ''SECRET'',
          m_timestamp_iso = JStr ''2025-08-17T10:00:00'', m_user_fingerprint = ''fp01'',
          m_main_file = JStr ''doc.tex'', m_pdf_path = JNull\<rparr>"
    by (simp add: demo_rows_of demo_fernet ev)
  with m none show ?thesis by simp
qed

lemma demo_encrypt:
  "encrypt_data demo_libs E demo_key (build_data_of E' ''B1'' gi gt c mf pp pw rt) = ''K1B1''"
proof -
  have "encrypt_data demo_libs E demo_key (build_data_of E' ''B1'' gi gt c mf pp pw rt)
          = bytes_str (demo_key @ utf8_encode ''B1'')"
    by (simp add: encrypt_data_def demo_libs_def build_data_of_def dict_get_def)
  also have "\<dots> = bytes_str (str_bytes (''K1'' @ ''B1''))"
    by (simp only: utf8_encode_B1 demo_key_def str_bytes_append)
  finally show ?thesis by (simp only: bytes_str_str_bytes append.simps)
qed

lemma demo_log1:
  "log_build demo_libs (demo_env fp ''2025-08-17T10:00:00'') demo_ledger0
      ''B1'' ''gi'' ''gt'' ''SECRET'' ''doc.tex'' None None (Some ''alice'')
   = (Some 1, demo_ledger1 fp)"
  by (simp add: demo_ledger1_def log_build_def demo_ledger0_eq demo_encrypt demo_env_def
        insert_or_replace_def next_rowid_def empty_table_def Let_def)

lemma demo_lookup1:
  "lookup (demo_ledger1 fp) ''B1'' =
     Some \<lparr>row_id = 1, build_hash = ''B1'', encrypted_data = ''K1B1'', user_fingerprint = fp,
           user_signature = sha256_hexdigest (utf8_encode ''B1K1B1''),
           timestamp_utc = ''2025-08-17T10:00:00''\<rparr>"
  by (simp add: demo_ledger1_def log_build_def demo_ledger0_eq demo_encrypt demo_env_def
        insert_or_replace_def next_rowid_def empty_table_def Let_def lookup_def select_build_def)

lemma demo_log3:
  "log_build demo_libs (demo_env ''fp01'' ''2025-08-17T12:00:00'') demo_ledger2
      ''B1'' ''gi'' ''gt'' ''SECRET'' ''doc.tex'' None None (Some ''alice'')
   = (Some 3, demo_ledger3)"
  by (simp add: demo_ledger3_def log_build_def demo_rows demo_encrypt demo_env_def
        insert_or_replace_def next_rowid_def Let_def)

lemma demo_rows3:
  "rows_of demo_ledger3 =
        [\<lparr>row_id = 2, build_hash = ''B2'', encrypted_data = ''K1B2'', user_fingerprint = ''fp01'',
          user_signature = sha256_hexdigest (utf8_encode ''B2K1B2''),
          timestamp_utc = ''2025-08-17T11:00:00''\<rparr>,
         \<lparr>row_id = 3, build_hash = ''B1'', encrypted_data = ''K1B1'', user_fingerprint = ''fp01'',
          user_signature = sha256_hexdigest (utf8_encode ''B1K1B1''),
          timestamp_utc = ''2025-08-17T12:00:00''\<rparr>]"
  by (simp add: demo_ledger3_def log_build_def demo_rows demo_encrypt demo_env_def
        insert_or_replace_def next_rowid_def Let_def rows_of_def)

theorem signature_ignores_fingerprint_counterexample:
  "lookup (demo_ledger1 ''fp01'') ''B1'' =
     Some \<lparr>row_id = 1, build_hash = ''B1'', encrypted_data = ''K1B1'', user_fingerprint = ''fp01'',
           user_signature = sha256_hexdigest (utf8_encode ''B1K1B1''),
           timestamp_utc = ''2025-08-17T10:00:00''\<rparr> \<and>
   lookup (demo_ledger1 ''fp02'') ''B1'' =
     Some \<lparr>row_id = 1, build_hash = ''B1'', encrypted_data = ''K1B1'', user_fingerprint = ''fp02'',
           user_signature = sha256_hexdigest (utf8_encode ''B1K1B1''),
           timestamp_utc = ''2025-08-17T10:00:00''\<rparr> \<and>
   ''fp01'' \<noteq> ''fp02'' \<and>
   map_option user_signature (lookup (demo_ledger1 ''fp01'') ''B1'') =
   map_option user_signature (lookup (demo_ledger1 ''fp02'') ''B1'')"
  by (simp add: demo_lookup1)

theorem signature_ignores_fingerprint_witness:
  "map_option user_signature (lookup (demo_ledger1 ''fp01'') ''B1'') =
   map_option user_signature (lookup (demo_ledger1 ''fp02'') ''B1'') \<and>
   map_option user_fingerprint (lookup (demo_ledger1 ''fp01'') ''B1'') = Some ''fp01'' \<and>
   map_option user_fingerprint (lookup (demo_ledger1 ''fp02'') ''B1'') = Some ''fp02''"
proof -
  obtain r1 where r1: "lookup (demo_ledger1 ''fp01'') ''B1'' = Some r1"
    and e1: "encrypted_data r1 = ''K1B1''" and f1: "user_fingerprint r1 = ''fp01''"
    by (simp add: demo_lookup1)
  obtain r2 where r2: "lookup (demo_ledger1 ''fp02'') ''B1'' = Some r2"
    and e2: "encrypted_data r2 = ''K1B1''" and f2: "user_fingerprint r2 = ''fp02''"
    by (simp add: demo_lookup1)
  have "encrypted_data r1 = encrypted_data r2" using e1 e2 by simp
  from signature_ignores_fingerprint [OF demo_log1 demo_log1 r1 r2 this]
  have "user_signature r1 = user_signature r2" by blast
  then show ?thesis using r1 r2 f1 f2 by simp
qed

theorem signature_of_persisted_columns_witness:
  "(\<exists>r. lookup (demo_ledger1 ''fp01'') ''B1'' = Some r \<and> build_hash r = ''B1'' \<and>
        user_signature r = sha256_hexdigest (utf8_encode (build_hash r @ encrypted_data r))) \<and>
   (\<exists>r. lookup demo_ledger2 ''B1'' = Some r \<and>
        user_signature r = sha256_hexdigest (utf8_encode (''B1'' @ encrypted_data r))) \<and>
   verify_build demo_libs demo_ledger2 ''B1'' = verify_build demo_libs (demo_ledger1 ''fp02'') ''B1''"
proof -
  note inst = signature_of_persisted_columns [of demo_libs
      "demo_env ''fp01'' ''2025-08-17T10:00:00''" demo_ledger0 "''B1''" "''gi''" "''gt''"
      "''SECRET''" "''doc.tex''" None None "Some ''alice''" 1 "demo_ledger1 ''fp01''"
      demo_ledger2 "demo_ledger1 ''fp02''"]
  have l2: "lookup demo_ledger2 ''B1'' =
     Some \<lparr>row_id = 1, build_hash = ''B1'', encrypted_data = ''K1B1'', user_fingerprint = ''fp01'',
           user_signature = sha256_hexdigest (utf8_encode ''B1K1B1''),
           timestamp_utc = ''2025-08-17T10:00:00''\<rparr>"
    by (simp add: demo_rows lookup_def select_build_def)
  have v: "verify_build demo_libs demo_ledger2 ''B1''"
    using demo_decrypt_B1
    by (simp add: verify_build_lookup l2 readable_def demo_fernet demo_B1_def build_data_of_def)
  have f: "fernet demo_ledger2 = fernet (demo_ledger1 ''fp02'')"
    by (simp add: demo_fernet demo_ledger1_def log_build_def demo_ledger0_eq demo_env_def
          insert_or_replace_def next_rowid_def Let_def)
  have c: "map_option (\<lambda>r. (encrypted_data r, user_signature r)) (lookup demo_ledger2 ''B1'') =
    map_option (\<lambda>r. (encrypted_data r, user_signature r)) (lookup (demo_ledger1 ''fp02'') ''B1'')"
    by (simp add: l2 demo_lookup1)
  from inst demo_log1 [of "''fp01''"] v f c show ?thesis by blast
qed




lemma demo_db_unique2: "db_unique demo_ledger2"
  by (simp add: db_unique_def demo_rows_of)

theorem log_build_one_row_per_build_hash_witness:
  "db_unique demo_ledger2 \<and>
   db_unique (log_builds demo_libs demo_ledger2 [demo_call1, demo_call1]) \<and>
   distinct (map s_build_hash
     (list_builds demo_libs (log_builds demo_libs demo_ledger2 [demo_call1, demo_call1]) 10)) \<and>
   map row_id (filter (\<lambda>x. build_hash x = ''B1'') (rows_of demo_ledger3)) = [3] \<and>
   filter (\<lambda>x. build_hash x \<noteq> ''B1'') (rows_of demo_ledger3) =
     filter (\<lambda>x. build_hash x \<noteq> ''B1'') (rows_of demo_ledger2)"
proof -
  note inst = log_build_one_row_per_build_hash [OF demo_db_unique2,
      of demo_libs "[demo_call1, demo_call1]" 10
         "demo_env ''fp01'' ''2025-08-17T12:00:00''" "''B1''" "''gi''" "''gt''"
         "''SECRET''" "''doc.tex''" None None "Some ''alice''" 3 demo_ledger3]
  from inst demo_log3 obtain r where
    "filter (\<lambda>x. build_hash x = ''B1'') (rows_of demo_ledger3) = [r]" "row_id r = 3"
    by blast
  then have "map row_id (filter (\<lambda>x. build_hash x = ''B1'') (rows_of demo_ledger3)) = [3]"
    by simp
  with inst demo_log3 demo_db_unique2 show ?thesis by blast
qed

lemma demo_readable:
  "readable demo_libs (Some demo_key) r"
  if "encrypted_data r = ''K1B1'' \<or> encrypted_data r = ''K1B2''"
  using that demo_decrypt_B1 demo_decrypt_B2
  by (auto simp: readable_def demo_B1_def demo_B2_def build_data_of_def)

lemma demo_unreadable:
  "\<not> readable demo_libs (Some demo_key) r" if "encrypted_data r = ''K9B1''"
  using that by (simp add: readable_def decrypt_data_def demo_libs_def demo_key_def str_bytes_def)

lemma demo_rows_corrupted:
  "rows_of demo_corrupted =
        [\<lparr>row_id = 1, build_hash = ''B1'', encrypted_data = ''K9B1'', user_fingerprint = ''fp01'',
          user_signature = sha256_hexdigest (utf8_encode ''B1K1B1''),
          timestamp_utc = ''2025-08-17T10:00:00''\<rparr>,
         \<lparr>row_id = 2, build_hash = ''B2'', encrypted_data = ''K1B2'', user_fingerprint = ''fp01'',
          user_signature = sha256_hexdigest (utf8_encode ''B2K1B2''),
          timestamp_utc = ''2025-08-17T11:00:00''\<rparr>]"
  by (simp add: demo_corrupted_def update_encrypted_data_def demo_rows rows_of_def)

lemma demo_fernet_corrupted: "fernet demo_corrupted = Some demo_key"
  by (simp add: demo_corrupted_def fernet_update demo_fernet)

lemma demo_sorted2:
  "order_by_timestamp_desc (rows_of demo_ledger2) = rev (rows_of demo_ledger2)"
  by (simp add: demo_rows_of order_by_timestamp_desc_def)

lemma demo_sorted_corrupted:
  "order_by_timestamp_desc (rows_of demo_corrupted) = rev (rows_of demo_corrupted)"
  by (simp add: demo_rows_corrupted order_by_timestamp_desc_def)

theorem list_builds_newest_first_witness:
  "map s_build_hash (list_builds demo_libs demo_ledger2 10) = [''B2'', ''B1''] \<and>
   map s_build_hash (list_builds demo_libs demo_ledger2 1) = [''B2''] \<and>
   map s_build_hash (list_builds demo_libs demo_ledger2 (- 1)) = [''B2'', ''B1''] \<and>
   list_builds demo_libs demo_ledger2 (- (2 ^ 63) - 1) = [] \<and>
   list_builds demo_libs demo_corrupted 10 =
     [\<lparr>s_build_hash = ''B2'', s_classification = JStr ''PUBLIC'', s_main_file = JStr ''doc.tex'',
       s_user_fingerprint = ''fp01'', s_timestamp_iso = JStr ''2025-08-17T11:00:00'',
       s_pdf_size = JInt 0\<rparr>]"
proof -
  have hashes: "map s_build_hash (list_builds demo_libs st limit) =
      map build_hash (filter (readable demo_libs (fernet st)) (fetched_rows st limit))"
    and nonneg: "0 \<le> limit \<and> limit < 2 ^ 63 \<Longrightarrow>
      fetched_rows st limit = take (nat limit) (order_by_timestamp_desc (rows_of st))"
    and neg: "- (2 ^ 63) \<le> limit \<and> limit < 0 \<Longrightarrow>
      fetched_rows st limit = order_by_timestamp_desc (rows_of st)"
    and out: "limit < - (2 ^ 63) \<or> 2 ^ 63 \<le> limit \<Longrightarrow> list_builds demo_libs st limit = []"
    and fields: "list_all2
     (\<lambda>s r. \<exists>kvs. decrypt_data demo_libs (fernet st) (encrypted_data r) = Some (JDict kvs) \<and>
        s = \<lparr>s_build_hash = build_hash r,
             s_classification = dict_get kvs ''classification'' (JStr ''unknown''),
             s_main_file = dict_get kvs ''main_file'' (JStr ''unknown''),
             s_user_fingerprint = user_fingerprint r,
             s_timestamp_iso = dict_get kvs ''timestamp_iso'' (JStr (timestamp_utc r)),
             s_pdf_size = dict_get kvs ''pdf_size'' (JInt 0)\<rparr>)
     (list_builds demo_libs st limit)
     (filter (\<lambda>r. \<exists>kvs. decrypt_data demo_libs (fernet st) (encrypted_data r) = Some (JDict kvs))
        (fetched_rows st limit))"
    for st limit
    using list_builds_newest_first [of demo_libs st limit] by blast+
  have a: "map s_build_hash (list_builds demo_libs demo_ledger2 10) = [''B2'', ''B1'']"
    by (simp add: hashes nonneg demo_sorted2 demo_fernet) (simp add: demo_rows_of demo_readable)
  have b: "map s_build_hash (list_builds demo_libs demo_ledger2 1) = [''B2'']"
    by (simp add: hashes nonneg demo_sorted2 demo_fernet) (simp add: demo_rows_of demo_readable)
  have c: "map s_build_hash (list_builds demo_libs demo_ledger2 (- 1)) = [''B2'', ''B1'']"
    by (simp add: hashes neg demo_sorted2 demo_fernet) (simp add: demo_rows_of demo_readable)
  have d: "list_builds demo_libs demo_ledger2 (- (2 ^ 63) - 1) = []"
    by (rule out) simp
  have f: "fetched_rows demo_corrupted 10 = rev (rows_of demo_corrupted)"
    by (simp add: nonneg demo_sorted_corrupted) (simp add: demo_rows_corrupted)
  have k: "decrypt_data demo_libs (Some demo_key) ''K9B1'' = None"
    by (simp add: decrypt_data_def demo_libs_def demo_key_def str_bytes_def)
  have e: "list_builds demo_libs demo_corrupted 10 =
     [\<lparr>s_build_hash = ''B2'', s_classification = JStr ''PUBLIC'', s_main_file = JStr ''doc.tex'',
       s_user_fingerprint = ''fp01'', s_timestamp_iso = JStr ''2025-08-17T11:00:00'',
       s_pdf_size = JInt 0\<rparr>]"
    using fields [of demo_corrupted 10]
    by (simp add: f demo_fernet_corrupted demo_rows_corrupted k demo_decrypt_B2 demo_B2_def
          build_data_of_def list_all2_Cons2 dict_get_def pdf_size_of_def demo_env_def)
  from a b c d e show ?thesis by blast
qed

lemma demo_rows_corrupted_newest:
  "rows_of demo_corrupted_newest =
        [\<lparr>row_id = 1, build_hash = ''B1'', encrypted_data = ''K1B1'', user_fingerprint = ''fp01'',
          user_signature = sha256_hexdigest (utf8_encode ''B1K1B1''),
          timestamp_utc = ''2025-08-17T10:00:00''\<rparr>,
         \<lparr>row_id = 2, build_hash = ''B2'', encrypted_data = ''K9B2'', user_fingerprint = ''fp01'',
          user_signature = sha256_hexdigest (utf8_encode ''B2K1B2''),
          timestamp_utc = ''2025-08-17T11:00:00''\<rparr>]"
  by (simp add: demo_corrupted_newest_def update_encrypted_data_def demo_rows rows_of_def)

lemma demo_fernet_corrupted_newest: "fernet demo_corrupted_newest = Some demo_key"
  by (simp add: demo_corrupted_newest_def fernet_update demo_fernet)

lemma demo_unreadable_newest:
  "\<not> readable demo_libs (Some demo_key) r" if "encrypted_data r = ''K9B2''"
  using that by (simp add: readable_def decrypt_data_def demo_libs_def demo_key_def str_bytes_def)

text \<open>
  Two builds are stored and both decrypt, and \<open>list_builds(2 ** 63)\<close> returns nothing
  where \<open>list_builds(2 ** 63 - 1)\<close> returns both; and with the newest row corrupted,
  \<open>list_builds(1)\<close> returns nothing where \<open>list_builds(2)\<close> returns the valid row.
\<close>

theorem list_builds_newest_first_counterexample:
  "list_builds demo_libs demo_ledger2 (2 ^ 63) = [] \<and>
   map s_build_hash (list_builds demo_libs demo_ledger2 (2 ^ 63 - 1)) = [''B2'', ''B1''] \<and>
   list_builds demo_libs demo_corrupted_newest 1 = [] \<and>
   map s_build_hash (list_builds demo_libs demo_corrupted_newest 2) = [''B1'']"
proof -
  have s: "order_by_timestamp_desc (rows_of demo_corrupted_newest) = rev (rows_of demo_corrupted_newest)"
    by (simp add: demo_rows_corrupted_newest order_by_timestamp_desc_def)
  have a: "list_builds demo_libs demo_ledger2 (2 ^ 63) = []"
    by (simp add: list_builds_fetched fetched_rows_def sql_limit_def List.map_filter_simps)
  have n: "nat (2 ^ 63 - 1) = 9223372036854775807" by simp
  have "fetched_rows demo_ledger2 (2 ^ 63 - 1) = rev (rows_of demo_ledger2)"
    by (simp only: fetched_rows_def sql_limit_def demo_sorted2 n) (simp add: demo_rows_of)
  then have b: "map s_build_hash (list_builds demo_libs demo_ledger2 (2 ^ 63 - 1)) = [''B2'', ''B1'']"
    by (simp only: list_builds_fetched map_filter_build_hash demo_fernet)
       (simp add: demo_rows_of demo_readable)
  have "fetched_rows demo_corrupted_newest 1 = take 1 (rev (rows_of demo_corrupted_newest))"
    by (simp add: fetched_rows_def sql_limit_def s)
  then have c: "list_builds demo_libs demo_corrupted_newest 1 = []"
    by (simp add: list_builds_fetched demo_rows_corrupted_newest demo_fernet_corrupted_newest
          List.map_filter_simps list_entry_readable [THEN iffD2] demo_unreadable_newest)
  have "fetched_rows demo_corrupted_newest 2 = rev (rows_of demo_corrupted_newest)"
    by (simp add: fetched_rows_def sql_limit_def s) (simp add: demo_rows_corrupted_newest)
  then have d: "map s_build_hash (list_builds demo_libs demo_corrupted_newest 2) = [''B1'']"
    by (simp only: list_builds_fetched map_filter_build_hash demo_fernet_corrupted_newest)
       (simp add: demo_rows_corrupted_newest demo_readable demo_unreadable_newest)
  from a b c d show ?thesis by blast
qed

lemma demo_key_ok: "fernet_key_ok demo_libs (str_bytes ''K2'') \<and> fernet_key_ok demo_libs demo_key"
  by (simp add: demo_libs_def demo_key_def str_bytes_def)

lemma demo_db2:
  "db demo_ledger2 = Some \<lparr>rows = rows_of demo_ledger2, seq = 2\<rparr>"
  by (simp add: demo_rows rows_of_def)

theorem open_ledger_takes_any_key_counterexample:
  "key_file demo_ledger2 = Some (str_bytes ''K1'') \<and>
   demo_reopened =
     \<lparr>key_file = Some (str_bytes ''K2''), db = db demo_ledger2, fernet = Some (str_bytes ''K2'')\<rparr> \<and>
   map build_hash (rows_of demo_reopened) = [''B1'', ''B2''] \<and>
   list_builds demo_libs demo_reopened 10 = [] \<and>
   fernet (BuildLogger demo_libs demo_key io_ok (Some (str_bytes ''K2'')) (db demo_ledger2)) =
     Some (str_bytes ''K2'')"
proof -
  have o: "demo_reopened =
     \<lparr>key_file = Some (str_bytes ''K2''), db = db demo_ledger2, fernet = Some (str_bytes ''K2'')\<rparr>"
    using demo_key_ok
    by (simp add: demo_reopened_def BuildLogger_cases io_ok_def demo_db2 Let_def)
  have r: "rows_of demo_reopened = rows_of demo_ledger2"
    by (simp add: o rows_of_def)
  have u: "list_entry demo_libs (Some (str_bytes ''K2'')) x = None"
    if "encrypted_data x = ''K1B1'' \<or> encrypted_data x = ''K1B2''" for x
    using that by (auto simp: list_entry_def decrypt_data_def demo_libs_def str_bytes_def)
  have f: "fernet demo_reopened = Some (str_bytes ''K2'')"
    by (simp add: o)
  have "fetched_rows demo_reopened 10 = rev (rows_of demo_ledger2)"
    by (simp add: fetched_rows_def sql_limit_def r demo_sorted2) (simp add: demo_rows_of)
  then have "list_builds demo_libs demo_reopened 10 = []"
    by (simp add: list_builds_fetched f demo_rows_of u List.map_filter_simps)
  moreover have "key_file demo_ledger2 = Some (str_bytes ''K1'')"
    by (simp add: demo_rows demo_key_def)
  moreover have
    "fernet (BuildLogger demo_libs demo_key io_ok (Some (str_bytes ''K2'')) (db demo_ledger2)) =
     Some (str_bytes ''K2'')"
    using demo_key_ok by (simp add: BuildLogger_cases io_ok_def Let_def)
  ultimately show ?thesis
    using o r by (simp add: demo_rows_of)
qed

theorem open_ledger_takes_any_key_witness:
  "open_key_ok io_ok \<and> connect_ok io_ok \<and>
   fernet_key_ok demo_libs (str_bytes ''K2'') \<and> fernet_key_ok demo_libs demo_key \<and>
   fernet (BuildLogger demo_libs (str_bytes ''K2'') io_ok None (db demo_ledger2)) =
     Some (str_bytes ''K2'') \<and>
   fernet (BuildLogger demo_libs (str_bytes ''K2'') io_ok (Some demo_key) (db demo_ledger2)) =
     Some demo_key \<and>
   rows_of (BuildLogger demo_libs (str_bytes ''K2'') io_ok None (db demo_ledger2)) =
     rows_of demo_ledger2 \<and>
   BuildLogger demo_libs (str_bytes ''K2'') \<lparr>open_key_ok = False, connect_ok = True\<rparr> None
       (db demo_ledger2) =
     \<lparr>key_file = None, db = db demo_ledger2, fernet = None\<rparr>"
proof -
  let ?t = "\<lparr>rows = rows_of demo_ledger2, seq = 2\<rparr>"
  let ?no = "\<lparr>open_key_ok = False, connect_ok = True\<rparr>"
  note inst = open_ledger_takes_any_key [of io_ok demo_libs "str_bytes ''K2''" ?t demo_key None]
  have io: "open_key_ok io_ok \<and> connect_ok io_ok" by (simp add: io_ok_def)
  from inst demo_key_ok io have
    a: "BuildLogger demo_libs (str_bytes ''K2'') io_ok None (Some ?t) =
          \<lparr>key_file = Some (str_bytes ''K2''), db = Some ?t, fernet = Some (str_bytes ''K2'')\<rparr>"
    and b: "BuildLogger demo_libs (str_bytes ''K2'') io_ok (Some demo_key) (Some ?t) =
          \<lparr>key_file = Some demo_key, db = Some ?t, fernet = Some demo_key\<rparr>"
    and c: "rows_of (BuildLogger demo_libs (str_bytes ''K2'') io_ok None (Some ?t)) = rows ?t"
    by blast+
  have d: "BuildLogger demo_libs (str_bytes ''K2'') ?no None (Some ?t) =
          \<lparr>key_file = None, db = Some ?t, fernet = None\<rparr>"
    using open_ledger_takes_any_key [of ?no demo_libs "str_bytes ''K2''" ?t demo_key None]
    by simp
  show ?thesis
    using demo_key_ok io by (simp add: demo_db2 c) (simp add: a b d)
qed







theorem invisible_token_run_text_witness:
  "emitted_run ''alice'' = ''TNC_TOKEN:~alice'' \<and> prefix ''TNC_TOKEN:'' (emitted_run ''alice'')"
  using invisible_token_run_text [of "''alice''"] by simp

section \<open>Digests evaluated\<close>




theorem generate_build_hash_shape_witness:
  "generate_build_hash ([0x20AC] @ code_points ''.tex'') (code_points ''SECRET'')
     (code_points ''2025-08-17T10:00:00.123456'') = Inr ''5cdcdc5eb7b4dfab'' \<and>
   length ''5cdcdc5eb7b4dfab'' = 16 \<and> set ''5cdcdc5eb7b4dfab'' \<subseteq> set hexdigits"
proof -
  have e: "generate_build_hash ([0x20AC] @ code_points ''.tex'') (code_points ''SECRET'')
     (code_points ''2025-08-17T10:00:00.123456'') = Inr ''5cdcdc5eb7b4dfab''"
    by code_simp
  have "\<forall>n \<in> set (([0x20AC] @ code_points ''.tex'') @ code_points ''SECRET'' @
          code_points ''2025-08-17T10:00:00.123456''). encodable n"
    by (simp add: code_points_def encodable_def)
  with generate_build_hash_shape [of "[0x20AC] @ code_points ''.tex''" "code_points ''SECRET''"
      "code_points ''2025-08-17T10:00:00.123456''"]
  show ?thesis
    unfolding e by auto
qed

end
